theory Spec2Isabelle
  imports Main
begin

section \<open>Python values, exceptions and the parsed command line\<close>

text \<open>
  The command handlers are dynamically typed: a flag's value is \<open>None\<close>, a boolean, an
  integer, a string, a list or a dictionary. \<open>VEnum\<close> stands for a member of a generated
  enumeration of the API messages.
\<close>

datatype val =
    VNone
  | VBool bool
  | VInt int
  | VStr string
  | VList "val list"
  | VDict "(string \<times> val) list"
  | VEnum string

text \<open>Python truthiness, as \<open>if x:\<close> and \<open>not x\<close> read a value.\<close>

fun truthy :: "val \<Rightarrow> bool" where
  "truthy VNone = False"
| "truthy (VBool b) = b"
| "truthy (VInt i) = (i \<noteq> 0)"
| "truthy (VStr s) = (s \<noteq> [])"
| "truthy (VList xs) = (xs \<noteq> [])"
| "truthy (VDict kvs) = (kvs \<noteq> [])"
| "truthy (VEnum e) = True"

text \<open>
  Exceptions. \<open>External\<close> is an exception raised inside a helper whose source is not part
  of the command files (\<open>flags\<close>, \<open>rule_utils\<close>, \<open>api_adapter\<close>, ...), other than the
  transport error \<open>HttpError\<close>, which the cluster command catches by class.
\<close>

datatype exn =
    UnknownDestinationException string
  | AttributeError string
  | TypeError
  | IndexError
  | ConflictingArgumentsException string
  | InvalidArgumentException string string
  | HttpError val
  | HttpException val string
  | Error string
  | ConflictingOptionsError string string
  | UnsupportedOptionError string
  | MissingEnvVarError string
  | External string

definition bindE :: "exn + 'a \<Rightarrow> ('a \<Rightarrow> exn + 'b) \<Rightarrow> exn + 'b" where
  "bindE m f = (case m of Inl e \<Rightarrow> Inl e | Inr x \<Rightarrow> f x)"

text \<open>
  The namespace the argument parser hands to \<open>Run\<close>: the attributes it carries (one per
  registered flag destination, \<open>None\<close> for a flag not given and without default) and the
  destinations given on the command line.
\<close>

record Namespace =
  attrs :: "string \<Rightarrow> val option"
  specified :: "string list"

text \<open>
  \<open>args.IsSpecified(dest)\<close> raises for a destination that is not registered
  (create.py, line 76: "hasattr checks if field exists, if not isSpecified would throw
  exception"); \<open>args.dest\<close> raises AttributeError for a missing attribute.
\<close>

definition hasattr :: "Namespace \<Rightarrow> string \<Rightarrow> bool" where
  "hasattr args dest = (attrs args dest \<noteq> None)"

definition IsSpecified :: "Namespace \<Rightarrow> string \<Rightarrow> exn + bool" where
  "IsSpecified args dest =
     (if hasattr args dest then Inr (dest \<in> set (specified args))
      else Inl (UnknownDestinationException dest))"

definition getattr :: "Namespace \<Rightarrow> string \<Rightarrow> exn + val" where
  "getattr args dest =
     (case attrs args dest of None \<Rightarrow> Inl (AttributeError dest) | Some v \<Rightarrow> Inr v)"

definition getattr_default :: "Namespace \<Rightarrow> string \<Rightarrow> val \<Rightarrow> val" where
  "getattr_default args dest dflt = (case attrs args dest of None \<Rightarrow> dflt | Some v \<Rightarrow> v)"

datatype ReleaseTrack = GA | BETA | ALPHA

section \<open>compute/firewall_policies/rules/update.py\<close>

text \<open>
  The messages \<open>Run\<close> builds. A field typed \<open>val option\<close> is a keyword that only some
  release tracks pass to the constructor: \<open>None\<close> means the keyword is not passed at all,
  \<open>Some v\<close> that it is passed with value \<open>v\<close>. The other fields are passed on every track.
\<close>

record FirewallPolicyRuleMatcher =
  srcIpRanges :: val
  destIpRanges :: val
  layer4Configs :: val
  srcFqdns :: "val option"
  destFqdns :: "val option"
  srcRegionCodes :: "val option"
  destRegionCodes :: "val option"
  srcThreatIntelligences :: "val option"
  destThreatIntelligences :: "val option"

record FirewallPolicyRule =
  priority :: int
  action :: val
  match :: "FirewallPolicyRuleMatcher option"
  direction :: val
  targetResources :: val
  targetServiceAccounts :: val
  description :: val
  enableLogging :: val
  disabled :: val
  securityProfileGroup :: "val option"

text \<open>The keywords of \<open>firewall_policy_rule_client.Update(...)\<close>, lines 210-213.\<close>

record UpdateCall =
  update_priority :: int
  update_firewall_policy :: val
  update_firewall_policy_rule :: FirewallPolicyRule

text \<open>
  The helpers \<open>Run\<close> calls whose sources are outside the command file:
  \<open>FIREWALL_POLICY_ARG.ResolveAsResource(...).Name()\<close>, \<open>rule_utils\<close> and
  \<open>firewall_policies_utils\<close>. Each may raise. The API holder and the two client
  objects built at lines 68-80 are fixed by the release track; the helpers that are handed
  one of them (\<open>messages\<close>, \<open>firewall_policy_client\<close>, the rule client) are given
  here without it.
\<close>

record FirewallHelpers =
  ResolveAsResource_Name :: "Namespace \<Rightarrow> exn + string"
  ConvertPriorityToInt :: "val \<Rightarrow> exn + int"
  ParseLayer4Configs :: "val \<Rightarrow> exn + val"
  BuildSecurityProfileGroupUrl :: "val \<Rightarrow> val \<Rightarrow> val \<Rightarrow> exn + val"
  GetFirewallPolicyId :: "val \<Rightarrow> val \<Rightarrow> exn + val"

text \<open>
  \<open>Update.Args\<close>, lines 39-65: the destinations registered for a release track, one per
  \<open>flags.Add...\<close> call, under the names \<open>Run\<close> reads them by.
\<close>

definition Update_Args :: "ReleaseTrack \<Rightarrow> string list" where
  "Update_Args track =
     [''action'', ''firewall_policy'', ''src_ip_ranges'', ''dest_ip_ranges'',
      ''layer4_configs'', ''direction'', ''enable_logging'', ''disabled'',
      ''target_resources'', ''target_service_accounts'']
     @ (if track = ALPHA
        then [''src_fqdns'', ''dest_fqdns'', ''security_profile_group''] else [])
     @ (if track \<in> set [ALPHA, BETA]
        then [''src_threat_intelligence'', ''dest_threat_intelligence'',
              ''src_region_codes'', ''dest_region_codes''] else [])
     @ [''description'', ''new_priority'', ''organization'']"

text \<open>
  \<open>if args.IsSpecified(dest): x = args.dest\<close> with \<open>x\<close> initialised to \<open>init\<close>: the flag
  tells whether the branch was taken.
\<close>

definition if_specified :: "Namespace \<Rightarrow> string \<Rightarrow> val \<Rightarrow> exn + bool \<times> val" where
  "if_specified args dest init =
     bindE (IsSpecified args dest) (\<lambda>s.
       if s then bindE (getattr args dest) (\<lambda>v. Inr (True, v)) else Inr (False, init))"

text \<open>The local variables of \<open>Run\<close> after lines 82-146.\<close>

record RunLocals =
  src_ip_ranges :: val
  dest_ip_ranges :: val
  layer4_config_list :: val
  target_resources :: val
  target_service_accounts :: val
  src_fqdns :: val
  dest_fqdns :: val
  src_region_codes :: val
  dest_region_codes :: val
  src_threat_intelligence :: val
  dest_threat_intelligence :: val
  enable_logging :: val
  disabled_local :: val
  should_setup_match :: bool
  security_profile_group :: val
  new_priority :: int

text \<open>Lines 113-125: the flags read only on the ALPHA track.\<close>

definition read_alpha ::
  "FirewallHelpers \<Rightarrow> ReleaseTrack \<Rightarrow> Namespace \<Rightarrow> exn + (bool \<times> val) \<times> (bool \<times> val) \<times> val"
where
  "read_alpha h track args =
     (if track = ALPHA then
        bindE (if_specified args ''src_fqdns'' (VList [])) (\<lambda>sf.
        bindE (if_specified args ''dest_fqdns'' (VList [])) (\<lambda>df.
        bindE (IsSpecified args ''security_profile_group'') (\<lambda>s.
        if s then
          bindE (getattr args ''security_profile_group'') (\<lambda>spg.
          bindE (getattr args ''organization'') (\<lambda>org.
          bindE (getattr args ''firewall_policy'') (\<lambda>fp.
          bindE (BuildSecurityProfileGroupUrl h spg org fp) (\<lambda>url.
          Inr (sf, df, url)))))
        else Inr (sf, df, VNone))))
      else Inr ((False, VList []), (False, VList []), VNone))"

text \<open>Lines 126-138: the flags read only on the ALPHA and BETA tracks.\<close>

definition read_alpha_beta ::
  "ReleaseTrack \<Rightarrow> Namespace \<Rightarrow>
     exn + (bool \<times> val) \<times> (bool \<times> val) \<times> (bool \<times> val) \<times> (bool \<times> val)"
where
  "read_alpha_beta track args =
     (if track \<in> set [ALPHA, BETA] then
        bindE (if_specified args ''src_threat_intelligence'' (VList [])) (\<lambda>sti.
        bindE (if_specified args ''dest_threat_intelligence'' (VList [])) (\<lambda>dti.
        bindE (if_specified args ''src_region_codes'' (VList [])) (\<lambda>src.
        bindE (if_specified args ''dest_region_codes'' (VList [])) (\<lambda>drc.
        Inr (sti, dti, src, drc)))))
      else Inr ((False, VList []), (False, VList []), (False, VList []), (False, VList [])))"

text \<open>Lines 82-146: the defaults, then one guarded read per flag, in the source's order.\<close>

definition read_flags ::
  "FirewallHelpers \<Rightarrow> ReleaseTrack \<Rightarrow> Namespace \<Rightarrow> int \<Rightarrow> exn + RunLocals"
where
  "read_flags h track args prio =
     bindE (if_specified args ''src_ip_ranges'' (VList [])) (\<lambda>sir.
     bindE (if_specified args ''dest_ip_ranges'' (VList [])) (\<lambda>dir.
     bindE (IsSpecified args ''layer4_configs'') (\<lambda>l4s.
     bindE (if l4s then bindE (getattr args ''layer4_configs'') (ParseLayer4Configs h)
            else Inr (VList [])) (\<lambda>l4.
     bindE (if_specified args ''target_resources'' (VList [])) (\<lambda>tr.
     bindE (if_specified args ''target_service_accounts'' (VList [])) (\<lambda>tsa.
     bindE (read_alpha h track args) (\<lambda>(sf, df, spg).
     bindE (read_alpha_beta track args) (\<lambda>(sti, dti, src, drc).
     bindE (if_specified args ''enable_logging'' (VBool False)) (\<lambda>el.
     bindE (if_specified args ''disabled'' (VBool False)) (\<lambda>dis.
     bindE (IsSpecified args ''new_priority'') (\<lambda>nps.
     bindE (if nps then bindE (getattr args ''new_priority'') (ConvertPriorityToInt h)
            else Inr prio) (\<lambda>np.
     Inr \<lparr> src_ip_ranges = snd sir, dest_ip_ranges = snd dir, layer4_config_list = l4,
           target_resources = snd tr, target_service_accounts = snd tsa,
           src_fqdns = snd sf, dest_fqdns = snd df,
           src_region_codes = snd src, dest_region_codes = snd drc,
           src_threat_intelligence = snd sti, dest_threat_intelligence = snd dti,
           enable_logging = snd el, disabled_local = snd dis,
           should_setup_match =
             (fst sir \<or> fst dir \<or> l4s \<or> fst sf \<or> fst df \<or> fst sti \<or> fst dti
              \<or> fst src \<or> fst drc),
           security_profile_group = spg, new_priority = np \<rparr>))))))))))))"

text \<open>Lines 148-174: the matcher, one constructor call per release track.\<close>

definition build_matcher :: "ReleaseTrack \<Rightarrow> RunLocals \<Rightarrow> FirewallPolicyRuleMatcher option" where
  "build_matcher track l =
     (if should_setup_match l then
        (if track = ALPHA then
           Some \<lparr> srcIpRanges = src_ip_ranges l, destIpRanges = dest_ip_ranges l,
                  layer4Configs = layer4_config_list l,
                  srcFqdns = Some (src_fqdns l), destFqdns = Some (dest_fqdns l),
                  srcRegionCodes = Some (src_region_codes l),
                  destRegionCodes = Some (dest_region_codes l),
                  srcThreatIntelligences = Some (src_threat_intelligence l),
                  destThreatIntelligences = Some (dest_threat_intelligence l) \<rparr>
         else if track = BETA then
           Some \<lparr> srcIpRanges = src_ip_ranges l, destIpRanges = dest_ip_ranges l,
                  layer4Configs = layer4_config_list l,
                  srcFqdns = None, destFqdns = None,
                  srcRegionCodes = Some (src_region_codes l),
                  destRegionCodes = Some (dest_region_codes l),
                  srcThreatIntelligences = Some (src_threat_intelligence l),
                  destThreatIntelligences = Some (dest_threat_intelligence l) \<rparr>
         else
           Some \<lparr> srcIpRanges = src_ip_ranges l, destIpRanges = dest_ip_ranges l,
                  layer4Configs = layer4_config_list l,
                  srcFqdns = None, destFqdns = None,
                  srcRegionCodes = None, destRegionCodes = None,
                  srcThreatIntelligences = None, destThreatIntelligences = None \<rparr>)
      else None)"

text \<open>Lines 175-179: the direction enum, \<open>None\<close> unless the flag is given.\<close>

definition read_direction :: "Namespace \<Rightarrow> exn + val" where
  "read_direction args =
     bindE (IsSpecified args ''direction'') (\<lambda>s.
       if s then
         bindE (getattr args ''direction'') (\<lambda>d.
           Inr (if d = VStr ''INGRESS'' then VEnum ''INGRESS'' else VEnum ''EGRESS''))
       else Inr VNone)"

text \<open>Lines 181-203: the rule; only the ALPHA constructor call has \<open>securityProfileGroup\<close>.\<close>

definition build_rule ::
  "ReleaseTrack \<Rightarrow> RunLocals \<Rightarrow> val \<Rightarrow> FirewallPolicyRuleMatcher option \<Rightarrow> val \<Rightarrow> val \<Rightarrow>
     FirewallPolicyRule"
where
  "build_rule track l act matcher traffic_direct descr =
     \<lparr> priority = new_priority l, action = act, match = matcher,
       direction = traffic_direct,
       targetResources = target_resources l,
       targetServiceAccounts = target_service_accounts l,
       description = descr,
       enableLogging = enable_logging l,
       disabled = disabled_local l,
       securityProfileGroup =
         (if track = ALPHA then Some (security_profile_group l) else None) \<rparr>"

text \<open>\<open>Update.Run\<close>, lines 67-213, up to the keywords handed to the client's \<open>Update\<close>.\<close>

definition Update_Run :: "FirewallHelpers \<Rightarrow> ReleaseTrack \<Rightarrow> Namespace \<Rightarrow> exn + UpdateCall" where
  "Update_Run h track args =
     bindE (ResolveAsResource_Name h args) (\<lambda>ref_name.
     bindE (ConvertPriorityToInt h (VStr ref_name)) (\<lambda>prio.
     bindE (read_flags h track args prio) (\<lambda>l.
     bindE (read_direction args) (\<lambda>traffic_direct.
     bindE (getattr args ''action'') (\<lambda>act.
     bindE (getattr args ''description'') (\<lambda>descr.
     bindE (getattr args ''firewall_policy'') (\<lambda>fp.
     bindE (getattr args ''organization'') (\<lambda>org.
     bindE (GetFirewallPolicyId h fp org) (\<lambda>firewall_policy_id.
     Inr \<lparr> update_priority = prio,
           update_firewall_policy = firewall_policy_id,
           update_firewall_policy_rule =
             build_rule track l act (build_matcher track l) traffic_direct descr \<rparr>
     )))))))))"

section \<open>policy_intelligence/simulate/orgpolicy.py\<close>

text \<open>
  The messages read from the policy and constraint files; \<open>policy_name\<close> is
  \<open>policy_message.policy.name\<close> and \<open>customConstraint_name\<close> is
  \<open>constraint_message.customConstraint.name\<close>.
\<close>

record PolicyMessage =
  policy_name :: val
  policy_file :: val

record ConstraintMessage =
  customConstraint_name :: val
  constraint_file :: val

text \<open>
  The helpers and API calls of \<open>SimulateAlpha.Run\<close>; their sources are elsewhere. They
  are methods of the API object built at lines 96-97 or take the release track, which is
  ALPHA for this command.
\<close>

record SimulatorHelpers =
  GetPolicyMessageFromFile :: "val \<Rightarrow> exn + PolicyMessage"
  GetCustomConstraintMessageFromFile :: "val \<Rightarrow> exn + ConstraintMessage"
  GetOrgPolicyOverlay :: "PolicyMessage list \<Rightarrow> ConstraintMessage list \<Rightarrow> exn + val"
  GetResourceFromPolicyName :: "val \<Rightarrow> exn + val"
  GetParentFromOrganization :: "val \<Rightarrow> exn + val"
  GetPolicysimulatorOrgPolicyViolationsPreview :: "val \<Rightarrow> exn + val"
  GenerateOrgPolicyViolationsPreviewRequest :: "val \<Rightarrow> val \<Rightarrow> exn + val"
  OrgPolicyViolationsPreviews :: "val \<Rightarrow> exn + val"
  simulator_WaitForOperation :: "val \<Rightarrow> exn + val"
  YieldFromList :: "val \<Rightarrow> exn + val list"

text \<open>
  \<open>for x in v\<close>: a list yields its elements, a string its characters, a dictionary its
  keys; \<open>None\<close>, booleans and integers are not iterable and raise TypeError.
\<close>

fun iterate :: "val \<Rightarrow> exn + val list" where
  "iterate (VList xs) = Inr xs"
| "iterate (VStr s) = Inr (map (\<lambda>c. VStr [c]) s)"
| "iterate (VDict kvs) = Inr (map (\<lambda>kv. VStr (fst kv)) kvs)"
| "iterate VNone = Inl TypeError"
| "iterate (VBool b) = Inl TypeError"
| "iterate (VInt i) = Inl TypeError"
| "iterate (VEnum e) = Inl TypeError"

text \<open>Lines 99-107: the loop over \<open>args.policies\<close>; a raise leaves the loop.\<close>

primrec read_policies :: "SimulatorHelpers \<Rightarrow> val list \<Rightarrow> exn + PolicyMessage list" where
  "read_policies h [] = Inr []"
| "read_policies h (policy # rest) =
     (case GetPolicyMessageFromFile h policy of
        Inl e \<Rightarrow> Inl e
      | Inr policy_message \<Rightarrow>
          if \<not> truthy (policy_name policy_message)
          then Inl (InvalidArgumentException ''Policy name''
                      ([CHR 0x27] @ ''name'' @ [CHR 0x27]
                       @ '' field not present in the organization policy.''))
          else (case read_policies h rest of
                  Inl e \<Rightarrow> Inl e
                | Inr policies \<Rightarrow> Inr (policy_message # policies)))"

text \<open>Lines 108-117: the loop over \<open>args.custom_constraints\<close>.\<close>

primrec read_custom_constraints ::
  "SimulatorHelpers \<Rightarrow> val list \<Rightarrow> exn + ConstraintMessage list"
where
  "read_custom_constraints h [] = Inr []"
| "read_custom_constraints h (custom_constraint # rest) =
     (case GetCustomConstraintMessageFromFile h custom_constraint of
        Inl e \<Rightarrow> Inl e
      | Inr constraint_message \<Rightarrow>
          if \<not> truthy (customConstraint_name constraint_message)
          then Inl (InvalidArgumentException ''Custom constraint name''
                      ([CHR 0x27] @ ''name'' @ [CHR 0x27]
                       @ '' field not present in the custom constraint.''))
          else (case read_custom_constraints h rest of
                  Inl e \<Rightarrow> Inl e
                | Inr constraints \<Rightarrow> Inr (constraint_message # constraints)))"

text \<open>\<open>policies[0]\<close>: IndexError on the empty list.\<close>

definition first :: "'a list \<Rightarrow> exn + 'a" where
  "first xs = (case xs of [] \<Rightarrow> Inl IndexError | x # _ \<Rightarrow> Inr x)"

text \<open>
  Line 92: \<open>not args.policies and not args.custom_constraints\<close>; \<open>and\<close> reads its right
  operand only when the left one is true.
\<close>

definition neither_given :: "Namespace \<Rightarrow> exn + bool" where
  "neither_given args =
     bindE (getattr args ''policies'') (\<lambda>p.
       if truthy p then Inr False
       else bindE (getattr args ''custom_constraints'') (\<lambda>c. Inr (\<not> truthy c)))"

text \<open>\<open>SimulateAlpha.Run\<close>, lines 91-153.\<close>

definition SimulateAlpha_Run :: "SimulatorHelpers \<Rightarrow> Namespace \<Rightarrow> exn + val list" where
  "SimulateAlpha_Run h args =
     bindE (neither_given args) (\<lambda>neither.
     if neither
     then Inl (ConflictingArgumentsException
                 ''Must specify either --policies or --custom-constraints or both.'')
     else
       bindE (getattr args ''policies'') (\<lambda>args_policies.
       bindE (iterate args_policies) (\<lambda>policy_files.
       bindE (read_policies h policy_files) (\<lambda>policies.
       bindE (getattr args ''custom_constraints'') (\<lambda>args_custom_constraints.
       bindE (iterate args_custom_constraints) (\<lambda>constraint_files.
       bindE (read_custom_constraints h constraint_files) (\<lambda>custom_constraints.
       bindE (GetOrgPolicyOverlay h policies custom_constraints) (\<lambda>overlay.
       bindE (first policies) (\<lambda>policy0.
       bindE (GetResourceFromPolicyName h (policy_name policy0)) (\<lambda>organization_resource.
       bindE (GetParentFromOrganization h organization_resource) (\<lambda>parent.
       bindE (GetPolicysimulatorOrgPolicyViolationsPreview h overlay) (\<lambda>violations.
       bindE (GenerateOrgPolicyViolationsPreviewRequest h violations parent) (\<lambda>request.
       bindE (OrgPolicyViolationsPreviews h request) (\<lambda>violations_preview_operation.
       bindE (simulator_WaitForOperation h violations_preview_operation) (\<lambda>_.
       YieldFromList h parent)))))))))))))))"

section \<open>container/clusters/create.py\<close>

subsection \<open>What the command changes: adapter calls, printed lines, the namespace\<close>

record ClusterRef =
  projectId :: string
  clusterId :: string
  zone :: string

record Operation =
  operation_name :: val
  detail :: val

datatype LogEntry =
    Status string
  | Warning val
  | CreatedResource ClusterRef

datatype AdapterCall = CreateCluster_call | WaitForOperation_call | GetCluster_call

text \<open>
  \<open>calls\<close>: the calls made on \<open>api_adapter\<close>, in order; \<open>printed\<close>: the lines written
  through \<open>log\<close>; \<open>namespace\<close>: the state of the one \<open>args\<close> object every function here
  is handed.
\<close>

record World =
  calls :: "AdapterCall list"
  printed :: "LogEntry list"
  namespace :: Namespace

type_synonym 'a M = "World \<Rightarrow> (exn + 'a) \<times> World"

definition returnM :: "'a \<Rightarrow> 'a M" where
  "returnM x = (\<lambda>w. (Inr x, w))"

definition raiseM :: "exn \<Rightarrow> 'a M" where
  "raiseM e = (\<lambda>w. (Inl e, w))"

definition bindM :: "'a M \<Rightarrow> ('a \<Rightarrow> 'b M) \<Rightarrow> 'b M" where
  "bindM m f = (\<lambda>w. case m w of (Inl e, w') \<Rightarrow> (Inl e, w') | (Inr x, w') \<Rightarrow> f x w')"

definition liftM :: "exn + 'a \<Rightarrow> 'a M" where
  "liftM r = (\<lambda>w. (r, w))"

definition readM :: "(Namespace \<Rightarrow> exn + 'a) \<Rightarrow> 'a M" where
  "readM f = (\<lambda>w. (f (namespace w), w))"

definition printM :: "LogEntry \<Rightarrow> unit M" where
  "printM entry = (\<lambda>w. (Inr (), w\<lparr>printed := printed w @ [entry]\<rparr>))"

text \<open>A helper that prints and may raise: its lines are appended when it returns.\<close>

definition tellM :: "exn + LogEntry list \<Rightarrow> unit M" where
  "tellM r = (\<lambda>w. case r of Inl e \<Rightarrow> (Inl e, w)
                         | Inr entries \<Rightarrow> (Inr (), w\<lparr>printed := printed w @ entries\<rparr>))"

definition callM :: "AdapterCall \<Rightarrow> exn + 'a \<Rightarrow> 'a M" where
  "callM c r = (\<lambda>w. (r, w\<lparr>calls := calls w @ [c]\<rparr>))"

definition setattrM :: "string \<Rightarrow> val \<Rightarrow> unit M" where
  "setattrM dest v =
     (\<lambda>w. (Inr (), w\<lparr>namespace := (namespace w)\<lparr>attrs := (attrs (namespace w))(dest \<mapsto> v)\<rparr>\<rparr>))"

definition whenM :: "bool \<Rightarrow> unit M \<Rightarrow> unit M" where
  "whenM b m = (if b then m else returnM ())"

text \<open>\<open>try: m except apitools_exceptions.HttpError as error: handler\<close>.\<close>

definition except_HttpError :: "'a M \<Rightarrow> (val \<Rightarrow> 'a M) \<Rightarrow> 'a M" where
  "except_HttpError m handler =
     (\<lambda>w. case m w of (Inl (HttpError error), w') \<Rightarrow> handler error w' | r \<Rightarrow> r)"

text \<open>\<open>try: m except kconfig.MissingEnvVarError as error: handler\<close>.\<close>

definition except_MissingEnvVarError :: "'a M \<Rightarrow> (string \<Rightarrow> 'a M) \<Rightarrow> 'a M" where
  "except_MissingEnvVarError m handler =
     (\<lambda>w. case m w of (Inl (MissingEnvVarError error), w') \<Rightarrow> handler error w' | r \<Rightarrow> r)"

subsection \<open>The helpers outside the command file\<close>

text \<open>
  \<open>flags\<close>, \<open>cmd_util\<close>, \<open>metadata_utils\<close>, \<open>utils\<close>, \<open>util\<close>, \<open>console_io\<close>,
  \<open>constants\<close>: each is typed by what its call site takes from it, a value, printed
  lines or a munged namespace, and each may raise.
\<close>

record CreateHelpers =
  MungeBasicAuthFlags :: "Namespace \<Rightarrow> exn + Namespace"
  WarnForUnspecifiedIpAllocationPolicy :: "Namespace \<Rightarrow> exn + LogEntry list"
  GetAutoRepair :: "Namespace \<Rightarrow> exn + val"
  WarnForNodeModification :: "Namespace \<Rightarrow> val \<Rightarrow> exn + LogEntry list"
  ConstructMetadataDict :: "val \<Rightarrow> val \<Rightarrow> exn + val"
  GetLegacyCloudRunFlag :: "string \<Rightarrow> Namespace \<Rightarrow> (string \<Rightarrow> val) \<Rightarrow> exn + val"
  ValidateCloudRunConfigCreateArgs :: "val \<Rightarrow> val \<Rightarrow> exn + unit"
  ValidateNotificationConfigFlag :: "Namespace \<Rightarrow> exn + unit"
  WarnForLocationPolicyDefault :: "Namespace \<Rightarrow> exn + LogEntry list"
  GetAutoUpgrade :: "Namespace \<Rightarrow> exn + val"
  BytesToGb :: "val \<Rightarrow> exn + val"
  OPERATIONS_FORMAT :: val
  HTTP_ERROR_FORMAT :: string
  KUBERNETES_ALPHA_PROMPT :: string
  KUBERNETES_GPU_LIMITATION_MSG :: string
  CheckKubectlInstalled :: "exn + LogEntry list"
  CalculateMaxNodeNumberByPodRange :: "val \<Rightarrow> exn + int"
  PromptContinue :: "string \<Rightarrow> exn + unit"
  CheckForContainerFileSystemApiEnablementWithPrompt :: "string \<Rightarrow> exn + LogEntry list"
  GenerateClusterUrl :: "ClusterRef \<Rightarrow> string"
  Persist :: "val \<Rightarrow> string \<Rightarrow> exn + unit"

text \<open>
  \<open>api_adapter.CreateClusterOptions(...)\<close>: the keywords it is built from, in the order
  written. The class is declared in \<open>api_adapter\<close>; an attribute that was not passed as a
  keyword reads as \<open>None\<close>.
\<close>

type_synonym CreateClusterOptions = "(string \<times> val) list"

definition option_attr :: "CreateClusterOptions \<Rightarrow> string \<Rightarrow> val" where
  "option_attr options key = (case map_of options key of None \<Rightarrow> VNone | Some v \<Rightarrow> v)"

record Adapter =
  ParseCluster :: "val \<Rightarrow> string \<Rightarrow> exn + ClusterRef"
  CreateCluster :: "ClusterRef \<Rightarrow> CreateClusterOptions \<Rightarrow> exn + val"
  WaitForOperation :: "val \<Rightarrow> string \<Rightarrow> val \<Rightarrow> exn + Operation"
  GetCluster :: "ClusterRef \<Rightarrow> exn + val"

subsection \<open>Reading flags\<close>

text \<open>\<open>_GetEnableStackdriver\<close>, lines 75-81.\<close>

definition GetEnableStackdriver :: "Namespace \<Rightarrow> val" where
  "GetEnableStackdriver args =
     (if \<not> hasattr args ''enable_stackdriver_kubernetes'' then VNone
      else if ''enable_stackdriver_kubernetes'' \<notin> set (specified args) then VNone
      else getattr_default args ''enable_stackdriver_kubernetes'' VNone)"

text \<open>
  Lines 230-231: \<open>args.dest if (hasattr(args, dest) and args.IsSpecified(dest)) else None\<close>.
\<close>

definition specified_or_None :: "Namespace \<Rightarrow> string \<Rightarrow> val" where
  "specified_or_None args dest =
     (if hasattr args dest \<and> dest \<in> set (specified args)
      then getattr_default args dest VNone else VNone)"

text \<open>\<open>DefaultAttribute\<close> and \<open>AttrValue\<close>, lines 404-411; \<open>base_flag_defaults\<close>, line 1030.\<close>

definition DefaultAttribute :: "string \<Rightarrow> (string \<times> val) list \<Rightarrow> val" where
  "DefaultAttribute flagname flag_defaults =
     (case map_of flag_defaults flagname of Some v \<Rightarrow> v | None \<Rightarrow> VNone)"

definition AttrValue :: "Namespace \<Rightarrow> string \<Rightarrow> (string \<times> val) list \<Rightarrow> val" where
  "AttrValue args flagname flag_defaults =
     getattr_default args flagname (DefaultAttribute flagname flag_defaults)"

definition base_flag_defaults :: "(string \<times> val) list" where
  "base_flag_defaults = [(''num_nodes'', VInt 3)]"

subsection \<open>\<open>ParseCreateOptionsBase\<close>\<close>

text \<open>\<open>cloudNatTemplate.substitute(REGION=location, PROJECT_ID=project_id)\<close>, lines 146-155.\<close>

definition cloudNatTemplate :: "string \<Rightarrow> string \<Rightarrow> string" where
  "cloudNatTemplate REGION PROJECT_ID =
     ''Note: This cluster has private nodes. If you need connectivity to the ''
     @ ''public internet, for example to pull public containers, you must ''
     @ ''configure Cloud NAT. To enable NAT for the network of this cluster, run ''
     @ ''the following commands: '' @ [CHR 0x0A]
     @ ''gcloud compute routers create my-router --region '' @ REGION @ '' ''
     @ ''--network default --project='' @ PROJECT_ID @ '' '' @ [CHR 0x0A]
     @ ''gcloud beta compute routers nats create nat --router=my-router ''
     @ ''--region='' @ REGION @ '' --auto-allocate-nat-external-ips ''
     @ ''--nat-all-subnet-ip-ranges --project='' @ PROJECT_ID"

text \<open>
  \<open>MaybeLogCloudNatHelpText\<close>, lines 158-162. The last operand is written
  \<open>hasattr('subnetwork')\<close>, a call with one argument: it raises TypeError when it is
  reached, that is when \<open>args\<close> has no \<open>network\<close> attribute.
\<close>

definition MaybeLogCloudNatHelpText :: "Namespace \<Rightarrow> bool \<Rightarrow> string \<Rightarrow> string \<Rightarrow> unit M" where
  "MaybeLogCloudNatHelpText args is_autopilot location project_id =
     (if is_autopilot \<and> truthy (getattr_default args ''enable_private_nodes'' (VBool False))
      then (if hasattr args ''network''
            then printM (Status (cloudNatTemplate location project_id))
            else raiseM TypeError)
      else returnM ())"

text \<open>Line 179: the helper is handed \<open>args\<close> and its result is dropped.\<close>

definition mungeM :: "CreateHelpers \<Rightarrow> Namespace M" where
  "mungeM h =
     (\<lambda>w. case MungeBasicAuthFlags h (namespace w) of
             Inl e \<Rightarrow> (Inl e, w)
           | Inr args \<Rightarrow> (Inr args, w\<lparr>namespace := args\<rparr>))"

text \<open>Lines 185-189.\<close>

definition read_autorepair :: "CreateHelpers \<Rightarrow> Namespace \<Rightarrow> val M" where
  "read_autorepair h args =
     (if hasattr args ''enable_autorepair'' then
        bindM (liftM (GetAutoRepair h args)) (\<lambda>enable_autorepair.
        bindM (whenM (truthy enable_autorepair)
                 (tellM (WarnForNodeModification h args enable_autorepair))) (\<lambda>_.
        returnM enable_autorepair))
      else returnM VNone)"

text \<open>
  Lines 204-349: the call \<open>api_adapter.CreateClusterOptions(...)\<close> with its 142 keywords.
  \<open>gd\<close> is \<open>get_default\<close>; the other arguments are the values computed before the call
  or inside it by a helper.
\<close>

definition CreateClusterOptions ::
  "(string \<Rightarrow> val) \<Rightarrow> Namespace \<Rightarrow> bool \<Rightarrow> val \<Rightarrow> val \<Rightarrow> val \<Rightarrow> val \<Rightarrow> val \<Rightarrow> val \<Rightarrow> val \<Rightarrow>
     CreateClusterOptions"
where
  "CreateClusterOptions gd args is_autopilot cloud_run_config enable_autorepair
       enable_autoupgrade enable_ip_alias enable_cloud_run_alpha node_disk_size_gb metadata =
     [
       (''accelerators'', gd ''accelerator''), (''additional_zones'', gd ''additional_zones''),
       (''addons'', gd ''addons''), (''boot_disk_kms_key'', gd ''boot_disk_kms_key''),
       (''cluster_dns'', gd ''cluster_dns''), (''cluster_dns_scope'', gd ''cluster_dns_scope''),
       (''cluster_dns_domain'', gd ''cluster_dns_domain''),
       (''cluster_ipv4_cidr'', gd ''cluster_ipv4_cidr''),
       (''cluster_secondary_range_name'', gd ''cluster_secondary_range_name''),
       (''cluster_version'', gd ''cluster_version''), (''cloud_run_config'', cloud_run_config),
       (''node_version'', gd ''node_version''),
       (''create_subnetwork'', gd ''create_subnetwork''),
       (''disable_default_snat'', gd ''disable_default_snat''),
       (''dataplane_v2'', gd ''enable_dataplane_v2''), (''disk_type'', gd ''disk_type''),
       (''enable_autorepair'', enable_autorepair),
       (''enable_autoscaling'', gd ''enable_autoscaling''),
       (''location_policy'', gd ''location_policy''),
       (''enable_autoupgrade'', enable_autoupgrade),
       (''enable_binauthz'', gd ''enable_binauthz''),
       (''binauthz_evaluation_mode'', gd ''binauthz_evaluation_mode''),
       (''enable_stackdriver_kubernetes'', GetEnableStackdriver args),
       (''enable_cloud_logging'', specified_or_None args ''enable_cloud_logging''),
       (''enable_cloud_monitoring'', specified_or_None args ''enable_cloud_monitoring''),
       (''enable_workload_monitoring_eap'', gd ''enable_workload_monitoring_eap''),
       (''logging'', gd ''logging''), (''monitoring'', gd ''monitoring''),
       (''enable_l4_ilb_subsetting'', gd ''enable_l4_ilb_subsetting''),
       (''enable_ip_alias'', enable_ip_alias),
       (''enable_intra_node_visibility'', gd ''enable_intra_node_visibility''),
       (''enable_kubernetes_alpha'', gd ''enable_kubernetes_alpha''),
       (''enable_cloud_run_alpha'', enable_cloud_run_alpha),
       (''enable_legacy_authorization'', gd ''enable_legacy_authorization''),
       (''enable_managed_prometheus'', gd ''enable_managed_prometheus''),
       (''enable_master_authorized_networks'', gd ''enable_master_authorized_networks''),
       (''enable_master_global_access'', gd ''enable_master_global_access''),
       (''enable_mesh_certificates'', gd ''enable_mesh_certificates''),
       (''enable_network_policy'', gd ''enable_network_policy''),
       (''enable_private_nodes'', gd ''enable_private_nodes''),
       (''enable_private_endpoint'', gd ''enable_private_endpoint''),
       (''enable_gke_oidc'', getattr_default args ''enable_gke_oidc'' VNone),
       (''enable_identity_service'', getattr_default args ''enable_identity_service'' VNone),
       (''image_type'', gd ''image_type''), (''image'', gd ''image''),
       (''image_project'', gd ''image_project''), (''image_family'', gd ''image_family''),
       (''issue_client_certificate'', gd ''issue_client_certificate''),
       (''labels'', gd ''labels''), (''local_ssd_count'', gd ''local_ssd_count''),
       (''maintenance_window'', gd ''maintenance_window''),
       (''maintenance_window_start'', gd ''maintenance_window_start''),
       (''maintenance_window_end'', gd ''maintenance_window_end''),
       (''maintenance_window_recurrence'', gd ''maintenance_window_recurrence''),
       (''master_authorized_networks'', gd ''master_authorized_networks''),
       (''master_ipv4_cidr'', gd ''master_ipv4_cidr''), (''max_nodes'', gd ''max_nodes''),
       (''max_nodes_per_pool'', gd ''max_nodes_per_pool''),
       (''min_cpu_platform'', gd ''min_cpu_platform''), (''min_nodes'', gd ''min_nodes''),
       (''total_max_nodes'', gd ''total_max_nodes''),
       (''total_min_nodes'', gd ''total_min_nodes''), (''network'', gd ''network''),
       (''node_disk_size_gb'', node_disk_size_gb), (''node_labels'', gd ''node_labels''),
       (''node_locations'', gd ''node_locations''), (''node_machine_type'', gd ''machine_type''),
       (''node_taints'', gd ''node_taints''),
       (''notification_config'', gd ''notification_config''),
       (''autoscaling_profile'', getattr_default args ''autoscaling_profile'' VNone),
       (''num_nodes'', gd ''num_nodes''), (''password'', gd ''password''),
       (''preemptible'', gd ''preemptible''), (''security_group'', gd ''security_group''),
       (''scopes'', gd ''scopes''), (''service_account'', gd ''service_account''),
       (''services_ipv4_cidr'', gd ''services_ipv4_cidr''),
       (''services_secondary_range_name'', gd ''services_secondary_range_name''),
       (''subnetwork'', gd ''subnetwork''),
       (''system_config_from_file'', gd ''system_config_from_file''),
       (''private_ipv6_google_access_type'', gd ''private_ipv6_google_access_type''),
       (''tags'', gd ''tags''),
       (''autoprovisioning_network_tags'', gd ''autoprovisioning_network_tags''),
       (''threads_per_core'', gd ''threads_per_core''), (''user'', gd ''username''),
       (''metadata'', metadata),
       (''default_max_pods_per_node'', gd ''default_max_pods_per_node''),
       (''max_pods_per_node'', gd ''max_pods_per_node''), (''enable_tpu'', gd ''enable_tpu''),
       (''tpu_ipv4_cidr'', gd ''tpu_ipv4_cidr''),
       (''resource_usage_bigquery_dataset'', gd ''resource_usage_bigquery_dataset''),
       (''enable_network_egress_metering'', gd ''enable_network_egress_metering''),
       (''enable_resource_consumption_metering'', gd ''enable_resource_consumption_metering''),
       (''database_encryption_key'', gd ''database_encryption_key''),
       (''workload_pool'', gd ''workload_pool''),
       (''identity_provider'', gd ''identity_provider''),
       (''tune_gke_metadata_server_cpu'', gd ''tune_gke_metadata_server_cpu''),
       (''tune_gke_metadata_server_memory'', gd ''tune_gke_metadata_server_memory''),
       (''workload_metadata'', gd ''workload_metadata''),
       (''workload_metadata_from_node'', gd ''workload_metadata_from_node''),
       (''enable_vertical_pod_autoscaling'', gd ''enable_vertical_pod_autoscaling''),
       (''enable_experimental_vertical_pod_autoscaling'', gd ''enable_experimental_vertical_pod_autoscaling''),
       (''enable_autoprovisioning'', gd ''enable_autoprovisioning''),
       (''autoprovisioning_config_file'', gd ''autoprovisioning_config_file''),
       (''autoprovisioning_service_account'', gd ''autoprovisioning_service_account''),
       (''autoprovisioning_scopes'', gd ''autoprovisioning_scopes''),
       (''autoprovisioning_locations'', gd ''autoprovisioning_locations''),
       (''autoprovisioning_max_surge_upgrade'', gd ''autoprovisioning_max_surge_upgrade''),
       (''autoprovisioning_max_unavailable_upgrade'', gd ''autoprovisioning_max_unavailable_upgrade''),
       (''enable_autoprovisioning_surge_upgrade'', gd ''enable_autoprovisioning_surge_upgrade''),
       (''enable_autoprovisioning_blue_green_upgrade'', gd ''enable_autoprovisioning_blue_green_upgrade''),
       (''autoprovisioning_standard_rollout_policy'', gd ''autoprovisioning_standard_rollout_policy''),
       (''autoprovisioning_node_pool_soak_duration'', gd ''autoprovisioning_node_pool_soak_duration''),
       (''enable_autoprovisioning_autorepair'', gd ''enable_autoprovisioning_autorepair''),
       (''enable_autoprovisioning_autoupgrade'', gd ''enable_autoprovisioning_autoupgrade''),
       (''autoprovisioning_min_cpu_platform'', gd ''autoprovisioning_min_cpu_platform''),
       (''min_cpu'', gd ''min_cpu''), (''max_cpu'', gd ''max_cpu''),
       (''min_memory'', gd ''min_memory''), (''max_memory'', gd ''max_memory''),
       (''min_accelerator'', gd ''min_accelerator''),
       (''max_accelerator'', gd ''max_accelerator''),
       (''autoprovisioning_image_type'', gd ''autoprovisioning_image_type''),
       (''shielded_secure_boot'', gd ''shielded_secure_boot''),
       (''shielded_integrity_monitoring'', gd ''shielded_integrity_monitoring''),
       (''reservation_affinity'', gd ''reservation_affinity''),
       (''reservation'', gd ''reservation''), (''release_channel'', gd ''release_channel''),
       (''enable_shielded_nodes'', gd ''enable_shielded_nodes''),
       (''max_surge_upgrade'', gd ''max_surge_upgrade''),
       (''max_unavailable_upgrade'', gd ''max_unavailable_upgrade''),
       (''autopilot'', VBool is_autopilot), (''gvnic'', gd ''enable_gvnic''),
       (''enable_confidential_nodes'', gd ''enable_confidential_nodes''),
       (''enable_image_streaming'', gd ''enable_image_streaming''), (''spot'', gd ''spot''),
       (''enable_service_externalips'', gd ''enable_service_externalips''),
       (''disable_pod_cidr_overprovision'', gd ''disable_pod_cidr_overprovision''),
       (''private_endpoint_subnetwork'', gd ''private_endpoint_subnetwork''),
       (''enable_google_cloud_access'', gd ''enable_google_cloud_access''),
       (''gateway_api'', gd ''gateway_api''), (''logging_variant'', gd ''logging_variant'')
     ]"

text \<open>
  \<open>ParseCreateOptionsBase\<close>, lines 176-349. \<open>get_default\<close> is the caller's closure over
  \<open>args\<close>; it is applied to the namespace as it is after line 179.
\<close>

definition ParseCreateOptionsBase ::
  "CreateHelpers \<Rightarrow> bool \<Rightarrow> (Namespace \<Rightarrow> string \<Rightarrow> val) \<Rightarrow> string \<Rightarrow> string \<Rightarrow>
     CreateClusterOptions M"
where
  "ParseCreateOptionsBase h is_autopilot get_default location project_id =
     bindM (mungeM h) (\<lambda>args.
     let gd = get_default args; enable_ip_alias = gd ''enable_ip_alias'' in
     bindM (whenM (hasattr args ''enable_ip_alias'')
              (tellM (WarnForUnspecifiedIpAllocationPolicy h args))) (\<lambda>_.
     bindM (read_autorepair h args) (\<lambda>enable_autorepair.
     bindM (liftM (ConstructMetadataDict h (gd ''metadata'') (gd ''metadata_from_file'')))
       (\<lambda>metadata.
     bindM (liftM (GetLegacyCloudRunFlag h ''{}_config'' args gd)) (\<lambda>cloud_run_config.
     bindM (liftM (ValidateCloudRunConfigCreateArgs h cloud_run_config (gd ''addons''))) (\<lambda>_.
     bindM (MaybeLogCloudNatHelpText args is_autopilot location project_id) (\<lambda>_.
     bindM (liftM (ValidateNotificationConfigFlag h args)) (\<lambda>_.
     bindM (tellM (WarnForLocationPolicyDefault h args)) (\<lambda>_.
     bindM (if hasattr args ''enable_autoupgrade'' then liftM (GetAutoUpgrade h args)
            else returnM VNone) (\<lambda>enable_autoupgrade.
     bindM (liftM (GetLegacyCloudRunFlag h ''enable_{}_alpha'' args gd))
       (\<lambda>enable_cloud_run_alpha.
     bindM (if hasattr args ''disk_size''
            then liftM (bindE (getattr args ''disk_size'') (BytesToGb h))
            else returnM VNone) (\<lambda>node_disk_size_gb.
     returnM (CreateClusterOptions gd args is_autopilot cloud_run_config enable_autorepair
                enable_autoupgrade enable_ip_alias enable_cloud_run_alpha node_disk_size_gb
                metadata)))))))))))))"

text \<open>\<open>Create.ParseCreateOptions\<close>, lines 1050-1060, for the GA command.\<close>

definition Create_ParseCreateOptions ::
  "CreateHelpers \<Rightarrow> string \<Rightarrow> string \<Rightarrow> CreateClusterOptions M"
where
  "Create_ParseCreateOptions h location project_id =
     ParseCreateOptionsBase h False (\<lambda>args key. AttrValue args key base_flag_defaults)
       location project_id"

subsection \<open>\<open>Create.Run\<close>\<close>

text \<open>
  What \<open>Run\<close> takes from \<open>self\<close>: the release track of the class, the two entries of
  \<open>self.context\<close> and the \<open>ParseCreateOptions\<close> method, which the BETA and ALPHA classes
  override.
\<close>

record CommandSelf =
  ReleaseTrack_of :: ReleaseTrack
  api_adapter :: Adapter
  location_get :: "Namespace \<Rightarrow> exn + string"
  ParseCreateOptions :: "string \<Rightarrow> string \<Rightarrow> CreateClusterOptions M"

text \<open>\<open>'%d' % n\<close> and \<open>str.lower\<close>.\<close>

fun decimal :: "nat \<Rightarrow> string" where
  "decimal n =
     (if n < 10 then [char_of (48 + n)] else decimal (n div 10) @ [char_of (48 + n mod 10)])"

definition format_d :: "int \<Rightarrow> string" where
  "format_d i = (if i < 0 then ''-'' @ decimal (nat (- i)) else decimal (nat i))"

definition lower :: "string \<Rightarrow> string" where
  "lower s =
     map (\<lambda>c. let n = (of_char c :: nat) in if 65 \<le> n \<and> n \<le> 90 then char_of (n + 32) else c) s"

text \<open>Lines 1087-1123: the notes printed about the parsed options.\<close>

definition print_notes :: "CreateHelpers \<Rightarrow> CreateClusterOptions \<Rightarrow> unit M" where
  "print_notes h options =
     bindM (whenM (truthy (option_attr options ''private_cluster'')
                   \<and> \<not> (truthy (option_attr options ''enable_master_authorized_networks'')
                        \<or> truthy (option_attr options ''master_authorized_networks'')))
              (printM (Status
                 (''Note: '' @ [CHR 0x60] @ ''--private-cluster'' @ [CHR 0x60]
                  @ '' makes the master inaccessible from ''
                  @ ''cluster-external IP addresses, by design. To allow limited ''
                  @ ''access to the master, see the '' @ [CHR 0x60]
                  @ ''--master-authorized-networks'' @ [CHR 0x60] @ '' flags ''
                  @ ''and our documentation on setting up private clusters: ''
                  @ ''https://cloud.google.com/kubernetes-engine/docs/how-to/private-clusters''))))
       (\<lambda>_.
     bindM (if truthy (option_attr options ''enable_ip_alias'')
            then printM (Status
                   (''Note: The Pod address range limits the maximum size of the cluster. ''
                    @ ''Please refer to ''
                    @ ''https://cloud.google.com/kubernetes-engine/docs/how-to/flexible-pod-cidr ''
                    @ ''to learn how to optimize IP address allocation.''))
            else
              bindM (liftM (CalculateMaxNodeNumberByPodRange h
                              (option_attr options ''cluster_ipv4_cidr''))) (\<lambda>max_node_number.
              whenM (max_node_number > 0)
                (printM (Status
                   (''Note: Your Pod address range ('' @ [CHR 0x60] @ ''--cluster-ipv4-cidr''
                    @ [CHR 0x60] @ '') can accommodate at most '' @ format_d max_node_number
                    @ '' node(s).''))))) (\<lambda>_.
     bindM (whenM (truthy (option_attr options ''enable_l4_ilb_subsetting''))
              (printM (Status ''Note: Once enabled, L4 ILB Subsetting cannot be disabled.'')))
       (\<lambda>_.
     whenM (truthy (option_attr options ''enable_pod_security_policy''))
       (printM (Status
          (''Upcoming breaking change: Kubernetes has officially deprecated ''
           @ ''PodSecurityPolicy in version 1.21 and will be removed in 1.25 with ''
           @ ''no upgrade path available with this feature enabled. For additional ''
           @ ''details, please refer to ''
           @ ''https://cloud.google.com/kubernetes-engine/docs/how-to/pod-security-policies''))))))"

text \<open>
  Lines 1128-1132. \<open>options.cluster_dns.lower()\<close> is reached for a true value only, and a
  true value that is not a string has no \<open>lower\<close>.
\<close>

definition check_dns_scope :: "ReleaseTrack \<Rightarrow> CreateClusterOptions \<Rightarrow> unit M" where
  "check_dns_scope track options =
     (if track = GA \<and> truthy (option_attr options ''cluster_dns'') then
        (case option_attr options ''cluster_dns'' of
           VStr s \<Rightarrow>
             if lower s = ''clouddns'' \<and> \<not> truthy (option_attr options ''cluster_dns_scope'')
             then raiseM (Error ''DNS Scope should be specified when using CloudDNS in GA.'')
             else returnM ()
         | _ \<Rightarrow> raiseM (AttributeError ''lower''))
      else returnM ())"

text \<open>Lines 1134-1147: the prompt and the remaining notes.\<close>

definition confirm_and_warn ::
  "CreateHelpers \<Rightarrow> ClusterRef \<Rightarrow> CreateClusterOptions \<Rightarrow> unit M"
where
  "confirm_and_warn h cluster_ref options =
     bindM (whenM (truthy (option_attr options ''enable_kubernetes_alpha''))
              (liftM (PromptContinue h (KUBERNETES_ALPHA_PROMPT h)))) (\<lambda>_.
     bindM (whenM (option_attr options ''accelerators'' \<noteq> VNone)
              (printM (Status (''Note: '' @ KUBERNETES_GPU_LIMITATION_MSG h)))) (\<lambda>_.
     whenM (truthy (option_attr options ''enable_image_streaming''))
       (tellM (CheckForContainerFileSystemApiEnablementWithPrompt h (projectId cluster_ref)))))"

text \<open>
  Lines 1149-1162, the \<open>try\<close> block: either the function returns from inside it (the
  \<open>--async\<close> path) or it goes on with the finished operation and the cluster.
\<close>

datatype TryOutcome = Returned val | Created Operation val

text \<open>Lines 1152-1160: the rest of the block, once \<open>CreateCluster\<close> has returned.\<close>

definition wait_and_fetch :: "Adapter \<Rightarrow> ClusterRef \<Rightarrow> val \<Rightarrow> TryOutcome M" where
  "wait_and_fetch adapter cluster_ref operation_ref =
     bindM (readM (\<lambda>args. getattr args ''async_'')) (\<lambda>async.
     if truthy async then
       bindM (callM GetCluster_call (GetCluster adapter cluster_ref)) (\<lambda>cluster.
       returnM (Returned cluster))
     else
       bindM (readM (\<lambda>args. getattr args ''timeout'')) (\<lambda>timeout_s.
       bindM (callM WaitForOperation_call
                (WaitForOperation adapter operation_ref
                   (''Creating cluster '' @ clusterId cluster_ref @ '' in ''
                    @ zone cluster_ref)
                   timeout_s)) (\<lambda>operation.
       bindM (callM GetCluster_call (GetCluster adapter cluster_ref)) (\<lambda>cluster.
       returnM (Created operation cluster)))))"

definition submit_and_wait ::
  "CreateHelpers \<Rightarrow> Adapter \<Rightarrow> ClusterRef \<Rightarrow> CreateClusterOptions \<Rightarrow> TryOutcome M"
where
  "submit_and_wait h adapter cluster_ref options =
     except_HttpError
       (bindM (callM CreateCluster_call (CreateCluster adapter cluster_ref options))
          (wait_and_fetch adapter cluster_ref))
       (\<lambda>error. raiseM (HttpException error (HTTP_ERROR_FORMAT h)))"

text \<open>Lines 1164-1178: the report, the warning, the kubeconfig entry, the result.\<close>

definition report_created ::
  "CreateHelpers \<Rightarrow> ClusterRef \<Rightarrow> Operation \<Rightarrow> val \<Rightarrow> val M"
where
  "report_created h cluster_ref operation cluster =
     bindM (printM (CreatedResource cluster_ref)) (\<lambda>_.
     bindM (printM (Status (''To inspect the contents of your cluster, go to: ''
                            @ GenerateClusterUrl h cluster_ref))) (\<lambda>_.
     bindM (whenM (truthy (detail operation)) (printM (Warning (detail operation)))) (\<lambda>_.
     bindM (except_MissingEnvVarError
              (liftM (Persist h cluster (projectId cluster_ref)))
              (\<lambda>error. printM (Warning (VStr error)))) (\<lambda>_.
     returnM (VList [cluster])))))"

text \<open>
  Lines 1075-1147 of \<open>Run\<close>: everything before the \<open>try\<close> block. It yields the cluster
  reference and the options the block is entered with.
\<close>

definition prepare :: "CommandSelf \<Rightarrow> CreateHelpers \<Rightarrow> (ClusterRef \<times> CreateClusterOptions) M" where
  "prepare self h =
     bindM (readM (\<lambda>args. getattr args ''async_'')) (\<lambda>async.
     bindM (if truthy async
            then readM (\<lambda>args. bindE (IsSpecified args ''format'') (\<lambda>s. Inr (\<not> s)))
            else returnM False) (\<lambda>set_format.
     bindM (whenM set_format (setattrM ''format'' (OPERATIONS_FORMAT h))) (\<lambda>_.
     bindM (tellM (CheckKubectlInstalled h)) (\<lambda>_.
     bindM (readM (location_get self)) (\<lambda>location.
     bindM (readM (\<lambda>args. getattr args ''name'')) (\<lambda>name.
     bindM (liftM (ParseCluster (api_adapter self) name location)) (\<lambda>cluster_ref.
     bindM (ParseCreateOptions self location (projectId cluster_ref)) (\<lambda>options.
     bindM (print_notes h options) (\<lambda>_.
     bindM (check_dns_scope (ReleaseTrack_of self) options) (\<lambda>_.
     bindM (confirm_and_warn h cluster_ref options) (\<lambda>_.
     returnM (cluster_ref, options))))))))))))"

text \<open>\<open>Create.Run\<close>, lines 1062-1178.\<close>

definition Create_Run :: "CommandSelf \<Rightarrow> CreateHelpers \<Rightarrow> val M" where
  "Create_Run self h =
     bindM (prepare self h) (\<lambda>(cluster_ref, options).
     bindM (submit_and_wait h (api_adapter self) cluster_ref options) (\<lambda>outcome.
     case outcome of
       Returned cluster \<Rightarrow> returnM cluster
     | Created operation cluster \<Rightarrow> report_created h cluster_ref operation cluster))"

subsection \<open>Mutually exclusive options\<close>

text \<open>
  The pairs the command declares as exclusive: \<open>--subnetwork\<close> "cannot be used with the
  --create-subnetwork option" (lines 109-117, registered by \<open>_Args\<close> on every track), and
  \<open>--additional-zones\<close> with \<open>--node-locations\<close>, which \<open>_AddAdditionalZonesGroup\<close>
  (lines 69-72) puts in one mutually exclusive group. The flag tables register that
  group for BETA and ALPHA (lines 581-582, 790-791); the GA table registers the two
  flags one by one (lines 417-418 and 520-521), outside any group.
\<close>

definition exclusive_pairs :: "ReleaseTrack \<Rightarrow> (string \<times> string) list" where
  "exclusive_pairs track =
     (''subnetwork'', ''create_subnetwork'')
     # (if track = GA then [] else [(''additional_zones'', ''node_locations'')])"

text \<open>
  Modelled from the spec: "setting both" options of a pair, read as both given on the
  command line. The code that decides it (the argument parser for a mutually exclusive
  group, \<open>api_adapter\<close> for the subnetwork pair) is not among the sources.
\<close>

definition both_set :: "Namespace \<Rightarrow> string \<times> string \<Rightarrow> bool" where
  "both_set args pair = (fst pair \<in> set (specified args) \<and> snd pair \<in> set (specified args))"

text \<open>
  Modelled from the spec: the check that rejects a command line giving both options of
  an exclusive pair, in place of the argument parser and of \<open>api_adapter\<close>. The spec, 4.1
  and 7: "Validates mutually-exclusive option pairs [...] fails with
  ConflictingOptionsError if both set"; "surfaced immediately, no network call made".
\<close>

definition validate_exclusive :: "(string \<times> string) list \<Rightarrow> Namespace \<Rightarrow> exn + unit" where
  "validate_exclusive pairs args =
     (case filter (both_set args) pairs of
        [] \<Rightarrow> Inr ()
      | pair # _ \<Rightarrow> Inl (ConflictingOptionsError (fst pair) (snd pair)))"

text \<open>
  Modelled from the spec: the command as the spec's Build, Submit and Resolve, the check
  of the exclusive pairs first, then \<open>Create.Run\<close> as the source has it.
\<close>

definition Create_command :: "CommandSelf \<Rightarrow> CreateHelpers \<Rightarrow> val M" where
  "Create_command self h =
     bindM (readM (validate_exclusive (exclusive_pairs (ReleaseTrack_of self)))) (\<lambda>_.
     Create_Run self h)"

section \<open>What the claims speak of\<close>

text \<open>The keywords a matcher was built with, in the order of the constructor call.\<close>

definition matcher_fields :: "FirewallPolicyRuleMatcher \<Rightarrow> string list" where
  "matcher_fields m =
     [''srcIpRanges'', ''destIpRanges'', ''layer4Configs'']
     @ (if srcFqdns m = None then [] else [''srcFqdns''])
     @ (if destFqdns m = None then [] else [''destFqdns''])
     @ (if srcRegionCodes m = None then [] else [''srcRegionCodes''])
     @ (if destRegionCodes m = None then [] else [''destRegionCodes''])
     @ (if srcThreatIntelligences m = None then [] else [''srcThreatIntelligences''])
     @ (if destThreatIntelligences m = None then [] else [''destThreatIntelligences''])"

text \<open>
  The namespace a parser with the destinations \<open>dests\<close> produces for the flags \<open>given\<close>:
  a registered flag that is not given reads as \<open>None\<close>.
\<close>

definition parsed :: "string list \<Rightarrow> (string \<times> val) list \<Rightarrow> Namespace" where
  "parsed dests given =
     \<lparr> attrs = (\<lambda>dest. if dest \<in> set dests
                       then Some (case map_of given dest of None \<Rightarrow> VNone | Some v \<Rightarrow> v)
                       else None),
       specified = map fst given \<rparr>"

text \<open>
  Modelled from the spec: the argument parser of a release channel, whose source is not
  among the command files. It is given the destinations the channel registers and the
  flags of the command line. A flag the channel does not register is refused, the first
  one being reported (the spec, 4.1 and 7: options unsupported in the active channel
  "fail with UnsupportedOptionError if explicitly set", "surfaced immediately");
  otherwise the command is handed the namespace.
\<close>

definition parse_args :: "string list \<Rightarrow> (string \<times> val) list \<Rightarrow> exn + Namespace" where
  "parse_args dests given =
     (case filter (\<lambda>dest. dest \<notin> set dests) (map fst given) of
        [] \<Rightarrow> Inr (parsed dests given)
      | dest # _ \<Rightarrow> Inl (UnsupportedOptionError dest))"

text \<open>
  Modelled from the spec: the firewall command as the spec's Build on a release channel,
  the channel's parser over the destinations of \<open>Update.Args\<close> first, then \<open>Update.Run\<close>
  as the source has it.
\<close>

definition Update_command ::
  "FirewallHelpers \<Rightarrow> ReleaseTrack \<Rightarrow> (string \<times> val) list \<Rightarrow> exn + UpdateCall"
where
  "Update_command h track given =
     bindE (parse_args (Update_Args track) given) (Update_Run h track)"

text \<open>
  The keyword of the rule or of its matcher that a flag of the firewall command is sent
  as (lines 151-203); \<open>firewall_policy\<close> and \<open>organization\<close> address the policy and are
  no keyword of the rule.
\<close>

definition request_keyword :: "string \<Rightarrow> string option" where
  "request_keyword =
     map_of
       [(''new_priority'', ''priority''), (''action'', ''action''),
        (''direction'', ''direction''), (''target_resources'', ''targetResources''),
        (''target_service_accounts'', ''targetServiceAccounts''),
        (''description'', ''description''), (''enable_logging'', ''enableLogging''),
        (''disabled'', ''disabled''), (''security_profile_group'', ''securityProfileGroup''),
        (''src_ip_ranges'', ''srcIpRanges''), (''dest_ip_ranges'', ''destIpRanges''),
        (''layer4_configs'', ''layer4Configs''), (''src_fqdns'', ''srcFqdns''),
        (''dest_fqdns'', ''destFqdns''), (''src_region_codes'', ''srcRegionCodes''),
        (''dest_region_codes'', ''destRegionCodes''),
        (''src_threat_intelligence'', ''srcThreatIntelligences''),
        (''dest_threat_intelligence'', ''destThreatIntelligences'')]"

text \<open>
  The keywords the request was built with: those of the rule (lines 181-203), then those
  of its matcher when it has one.
\<close>

definition request_keywords :: "UpdateCall \<Rightarrow> string list" where
  "request_keywords c =
     [''priority'', ''action'', ''match'', ''direction'', ''targetResources'',
      ''targetServiceAccounts'', ''description'', ''enableLogging'', ''disabled'']
     @ (if securityProfileGroup (update_firewall_policy_rule c) = None then []
        else [''securityProfileGroup''])
     @ (case match (update_firewall_policy_rule c) of None \<Rightarrow> [] | Some m \<Rightarrow> matcher_fields m)"

text \<open>
  A computation that returns a value instead of raising, and helpers of the firewall
  command that raise nothing, whatever they are called with.
\<close>

definition returns :: "exn + 'a \<Rightarrow> bool" where
  "returns r = (case r of Inl e \<Rightarrow> False | Inr x \<Rightarrow> True)"

definition helpers_succeed :: "FirewallHelpers \<Rightarrow> bool" where
  "helpers_succeed h =
     ((\<forall>args. returns (ResolveAsResource_Name h args))
      \<and> (\<forall>v. returns (ConvertPriorityToInt h v))
      \<and> (\<forall>v. returns (ParseLayer4Configs h v))
      \<and> (\<forall>spg org fp. returns (BuildSecurityProfileGroupUrl h spg org fp))
      \<and> (\<forall>fp org. returns (GetFirewallPolicyId h fp org)))"

text \<open>A step of the cluster command that makes no call on the adapter.\<close>

definition keeps_calls :: "'a M \<Rightarrow> bool" where
  "keeps_calls m = (\<forall>w. calls (snd (m w)) = calls w)"

section \<open>Concrete command lines\<close>

text \<open>Helpers for the firewall command that answer for the rule named \<open>10\<close>.\<close>

definition firewall_fixture :: FirewallHelpers where
  "firewall_fixture =
     \<lparr> ResolveAsResource_Name = (\<lambda>args. Inr ''10''),
       ConvertPriorityToInt =
         (\<lambda>v. if v = VStr ''10'' then Inr 10 else if v = VStr ''20'' then Inr 20
              else Inl (External ''priority'')),
       ParseLayer4Configs = Inr,
       BuildSecurityProfileGroupUrl = (\<lambda>spg org fp. Inr spg),
       GetFirewallPolicyId = (\<lambda>fp org. Inr fp) \<rparr>"

text \<open>The same helpers with a priority conversion that answers \<open>10\<close> for every name.\<close>

definition obliging_fixture :: FirewallHelpers where
  "obliging_fixture = firewall_fixture\<lparr> ConvertPriorityToInt := (\<lambda>v. Inr 10) \<rparr>"

text \<open>
  The example of the command's help text (update.py, lines 219-224):
  \<open>update 10 --firewall-policy=123456789 --action=allow --description=new-example-rule\<close>.
\<close>

definition help_example :: Namespace where
  "help_example =
     parsed (Update_Args GA)
       [(''firewall_policy'', VStr ''123456789''), (''action'', VStr ''allow''),
        (''description'', VStr ''new-example-rule'')]"

text \<open>\<open>update 10 --firewall-policy=123456789 --action=allow --src-ip-ranges=10.0.0.0/8\<close>.\<close>

definition example_update :: "ReleaseTrack \<Rightarrow> Namespace" where
  "example_update track =
     parsed (Update_Args track)
       [(''firewall_policy'', VStr ''123456789''), (''action'', VStr ''allow''),
        (''src_ip_ranges'', VList [VStr ''10.0.0.0/8''])]"

text \<open>The flags of that command line, and the same with \<open>--src-fqdns=example.com\<close>.\<close>

definition example_flags :: "(string \<times> val) list" where
  "example_flags =
     [(''firewall_policy'', VStr ''123456789''), (''action'', VStr ''allow''),
      (''src_ip_ranges'', VList [VStr ''10.0.0.0/8''])]"

definition example_flags_with_fqdns :: "(string \<times> val) list" where
  "example_flags_with_fqdns = example_flags @ [(''src_fqdns'', VList [VStr ''example.com''])]"

definition ga_matcher :: FirewallPolicyRuleMatcher where
  "ga_matcher =
     \<lparr> srcIpRanges = VList [VStr ''10.0.0.0/8''], destIpRanges = VList [],
       layer4Configs = VList [], srcFqdns = None, destFqdns = None,
       srcRegionCodes = None, destRegionCodes = None,
       srcThreatIntelligences = None, destThreatIntelligences = None \<rparr>"

definition beta_matcher :: FirewallPolicyRuleMatcher where
  "beta_matcher =
     ga_matcher\<lparr> srcRegionCodes := Some (VList []), destRegionCodes := Some (VList []),
                 srcThreatIntelligences := Some (VList []),
                 destThreatIntelligences := Some (VList []) \<rparr>"

definition alpha_matcher :: FirewallPolicyRuleMatcher where
  "alpha_matcher = beta_matcher\<lparr> srcFqdns := Some (VList []), destFqdns := Some (VList []) \<rparr>"

definition example_call :: "FirewallPolicyRuleMatcher \<Rightarrow> val option \<Rightarrow> UpdateCall" where
  "example_call m spg =
     \<lparr> update_priority = 10, update_firewall_policy = VStr ''123456789'',
       update_firewall_policy_rule =
         \<lparr> priority = 10, action = VStr ''allow'', match = Some m, direction = VNone,
           targetResources = VList [], targetServiceAccounts = VList [],
           description = VNone, enableLogging = VBool False, disabled = VBool False,
           securityProfileGroup = spg \<rparr> \<rparr>"

text \<open>\<open>simulate orgpolicy --custom-constraints=constraint.json\<close>.\<close>

definition only_custom_constraints :: Namespace where
  "only_custom_constraints =
     parsed [''policies'', ''custom_constraints'']
       [(''custom_constraints'', VList [VStr ''constraint.json''])]"

text \<open>
  The cluster command on \<open>create sample-cluster\<close>: helpers that neither print nor
  raise, an adapter whose calls succeed and whose operation carries a detail, and three
  adapters that fail with a transport error at the submit, at the wait and at the fetch.
\<close>

definition create_fixture :: CreateHelpers where
  "create_fixture =
     \<lparr> MungeBasicAuthFlags = Inr,
       WarnForUnspecifiedIpAllocationPolicy = (\<lambda>args. Inr []),
       GetAutoRepair = (\<lambda>args. Inr (getattr_default args ''enable_autorepair'' VNone)),
       WarnForNodeModification = (\<lambda>args v. Inr []),
       ConstructMetadataDict = (\<lambda>m f. Inr (VDict [])),
       GetLegacyCloudRunFlag = (\<lambda>fmt args gd. Inr VNone),
       ValidateCloudRunConfigCreateArgs = (\<lambda>c a. Inr ()),
       ValidateNotificationConfigFlag = (\<lambda>args. Inr ()),
       WarnForLocationPolicyDefault = (\<lambda>args. Inr []),
       GetAutoUpgrade = (\<lambda>args. Inr (getattr_default args ''enable_autoupgrade'' VNone)),
       BytesToGb = Inr,
       OPERATIONS_FORMAT = VStr ''operations'',
       HTTP_ERROR_FORMAT = ''ResponseError: code={status_code}, message={status_message}'',
       KUBERNETES_ALPHA_PROMPT = ''alpha clusters are not covered by the SLA'',
       KUBERNETES_GPU_LIMITATION_MSG = ''GPU limitation'',
       CheckKubectlInstalled = Inr [],
       CalculateMaxNodeNumberByPodRange = (\<lambda>cidr. Inr (-1)),
       PromptContinue = (\<lambda>msg. Inr ()),
       CheckForContainerFileSystemApiEnablementWithPrompt = (\<lambda>p. Inr []),
       GenerateClusterUrl = (\<lambda>r. ''https://console.cloud.google.com/kubernetes/'' @ clusterId r),
       Persist = (\<lambda>cluster project. Inr ()) \<rparr>"

definition sample_ref :: ClusterRef where
  "sample_ref = \<lparr> projectId = ''my-project'', clusterId = ''sample-cluster'', zone = ''us-central1-a'' \<rparr>"

definition sample_operation :: Operation where
  "sample_operation = \<lparr> operation_name = VStr ''operation-1'', detail = VStr ''quota is nearly exhausted'' \<rparr>"

definition sample_adapter :: Adapter where
  "sample_adapter =
     \<lparr> ParseCluster = (\<lambda>name location. Inr sample_ref),
       CreateCluster = (\<lambda>r options. Inr (VStr ''operation-1'')),
       WaitForOperation = (\<lambda>r msg t. Inr sample_operation),
       GetCluster = (\<lambda>r. Inr (VStr ''sample-cluster'')) \<rparr>"

definition ga_command :: "Adapter \<Rightarrow> CommandSelf" where
  "ga_command adapter =
     \<lparr> ReleaseTrack_of = GA, api_adapter = adapter,
       location_get = (\<lambda>args. Inr ''us-central1-a''),
       ParseCreateOptions = Create_ParseCreateOptions create_fixture \<rparr>"

definition sample_world :: World where
  "sample_world =
     \<lparr> calls = [], printed = [],
       namespace = parsed [''name'', ''async_'', ''timeout'', ''format'', ''subnetwork'',
                           ''network'', ''cluster_ipv4_cidr'', ''num_nodes'', ''enable_ip_alias'']
                     [(''name'', VStr ''sample-cluster''), (''async_'', VBool False),
                      (''timeout'', VInt 3600), (''num_nodes'', VInt 3)] \<rparr>"

definition sample_options :: CreateClusterOptions where
  "sample_options =
     CreateClusterOptions (\<lambda>key. AttrValue (namespace sample_world) key base_flag_defaults)
       (namespace sample_world) False VNone VNone VNone VNone VNone VNone (VDict [])"

definition rejecting_adapter :: Adapter where
  "rejecting_adapter =
     sample_adapter\<lparr> CreateCluster := (\<lambda>r options. Inl (HttpError (VStr ''409 conflict''))) \<rparr>"

definition wait_failing_adapter :: Adapter where
  "wait_failing_adapter =
     sample_adapter\<lparr> WaitForOperation := (\<lambda>r msg t. Inl (HttpError (VStr ''403 forbidden''))) \<rparr>"

definition fetch_failing_adapter :: Adapter where
  "fetch_failing_adapter =
     sample_adapter\<lparr> GetCluster := (\<lambda>r. Inl (HttpError (VStr ''403 forbidden''))) \<rparr>"


text \<open>
  The destinations of a small parser for the cluster command; it registers neither
  \<open>--gateway-api\<close> nor \<open>--enable-gke-oidc\<close>.
\<close>

definition sample_dests :: "string list" where
  "sample_dests =
     [''name'', ''async_'', ''timeout'', ''format'', ''subnetwork'', ''network'',
      ''cluster_ipv4_cidr'', ''num_nodes'', ''enable_ip_alias'']"

text \<open>\<open>create sample-cluster\<close>, and the same with \<open>--gateway-api=standard\<close>.\<close>

definition sample_flags :: "(string \<times> val) list" where
  "sample_flags =
     [(''name'', VStr ''sample-cluster''), (''async_'', VBool False),
      (''timeout'', VInt 3600), (''num_nodes'', VInt 3)]"

definition sample_flags_with_gateway :: "(string \<times> val) list" where
  "sample_flags_with_gateway = sample_flags @ [(''gateway_api'', VStr ''standard'')]"

text \<open>A command line of the cluster command with further flags \<open>given\<close>.\<close>

definition conflicting_world :: "(string \<times> val) list \<Rightarrow> World" where
  "conflicting_world given =
     \<lparr> calls = [], printed = [],
       namespace = parsed [''name'', ''async_'', ''timeout'', ''format'', ''subnetwork'',
                           ''create_subnetwork'', ''additional_zones'', ''node_locations'']
                     ([(''name'', VStr ''sample-cluster''), (''async_'', VBool False),
                       (''timeout'', VInt 3600)] @ given) \<rparr>"

text \<open>
  The same command line with \<open>args.policies\<close> an empty list instead of \<open>None\<close>, and
  \<open>simulate orgpolicy --policies=policy.json\<close>.
\<close>

definition empty_policies :: Namespace where
  "empty_policies =
     parsed [''policies'', ''custom_constraints'']
       [(''policies'', VList []), (''custom_constraints'', VList [VStr ''constraint.json''])]"

definition only_policies :: Namespace where
  "only_policies =
     parsed [''policies'', ''custom_constraints''] [(''policies'', VList [VStr ''policy.json''])]"

text \<open>
  A command object on the BETA track. Its options method is the GA one, which a command
  line rejected for an exclusive pair never reaches.
\<close>

definition beta_command :: CommandSelf where
  "beta_command = (ga_command sample_adapter)\<lparr>ReleaseTrack_of := BETA\<rparr>"

section \<open>The firewall policy rule update\<close>

lemma bindE_simps:
  "bindE (Inl e) f = Inl e"
  "bindE (Inr x) f = f x"
  by (simp_all add: bindE_def)

lemma bindE_Inr_iff: "(bindE m f = Inr y) = (\<exists>x. m = Inr x \<and> f x = Inr y)"
  by (cases m) (simp_all add: bindE_def)

lemma Update_Run_Inr:
  assumes "Update_Run h track args = Inr c"
  obtains ref_name prio l traffic_direct act descr where
    "ResolveAsResource_Name h args = Inr ref_name"
    "ConvertPriorityToInt h (VStr ref_name) = Inr prio"
    "read_flags h track args prio = Inr l"
    "update_priority c = prio"
    "update_firewall_policy_rule c = build_rule track l act (build_matcher track l) traffic_direct descr"
  using assms unfolding Update_Run_def bindE_Inr_iff by auto

lemma read_flags_new_priority:
  assumes "read_flags h track args prio = Inr l" "''new_priority'' \<notin> set (specified args)"
  shows "new_priority l = prio"
  using assms
  by (auto simp: read_flags_def bindE_Inr_iff IsSpecified_def split: if_splits prod.splits)

lemma build_matcher_fields:
  assumes "build_matcher track l = Some m"
  shows "matcher_fields m =
     (case track of
        GA \<Rightarrow> [''srcIpRanges'', ''destIpRanges'', ''layer4Configs'']
      | BETA \<Rightarrow> [''srcIpRanges'', ''destIpRanges'', ''layer4Configs'',
                 ''srcRegionCodes'', ''destRegionCodes'',
                 ''srcThreatIntelligences'', ''destThreatIntelligences'']
      | ALPHA \<Rightarrow> [''srcIpRanges'', ''destIpRanges'', ''layer4Configs'',
                  ''srcFqdns'', ''destFqdns'', ''srcRegionCodes'', ''destRegionCodes'',
                  ''srcThreatIntelligences'', ''destThreatIntelligences''])"
  using assms by (cases track) (auto simp: build_matcher_def matcher_fields_def split: if_splits)

lemmas eval_update =
  Update_Run_def firewall_fixture_def parsed_def Update_Args_def bindE_simps read_flags_def
  if_specified_def IsSpecified_def hasattr_def getattr_def read_alpha_def read_alpha_beta_def
  read_direction_def build_rule_def build_matcher_def example_update_def

lemma example_update_GA:
  "Update_Run firewall_fixture GA (example_update GA) = Inr (example_call ga_matcher None)"
  by (simp add: eval_update example_call_def ga_matcher_def)

lemma example_update_BETA:
  "Update_Run firewall_fixture BETA (example_update BETA) = Inr (example_call beta_matcher None)"
  by (simp add: eval_update example_call_def beta_matcher_def ga_matcher_def)

lemma example_update_ALPHA:
  "Update_Run firewall_fixture ALPHA (example_update ALPHA)
     = Inr (example_call alpha_matcher (Some VNone))"
  by (simp add: eval_update example_call_def alpha_matcher_def beta_matcher_def ga_matcher_def)

text \<open>
  C1. The claim: an option the caller did not specify is absent from the request, and in
  particular an update that gives neither \<open>--enable-logging\<close> nor \<open>--disabled\<close> does
  not send those fields as false. The code at the help text's own example, which gives
  neither flag: the direction, which is not given either, is sent as \<open>None\<close>, but
  \<open>enableLogging\<close> and \<open>disabled\<close> are sent as \<open>False\<close> (lines 93-94 initialise them
  to \<open>False\<close>, lines 96-98 initialise the other scalars to \<open>None\<close>).
\<close>

theorem Update_Run_sends_unset_booleans_as_False:
  "Update_Run firewall_fixture GA help_example =
     Inr \<lparr> update_priority = 10, update_firewall_policy = VStr ''123456789'',
           update_firewall_policy_rule =
             \<lparr> priority = 10, action = VStr ''allow'', match = None, direction = VNone,
               targetResources = VList [], targetServiceAccounts = VList [],
               description = VStr ''new-example-rule'',
               enableLogging = VBool False, disabled = VBool False,
               securityProfileGroup = None \<rparr> \<rparr>"
  by (simp add: eval_update help_example_def)

text \<open>
  C2. Whatever the namespace holds, the request built on a track has that track's shape:
  the matcher of GA is built from \<open>srcIpRanges\<close>, \<open>destIpRanges\<close> and \<open>layer4Configs\<close>
  alone, the matcher of BETA adds the region codes and threat intelligence lists, the
  matcher of ALPHA adds the FQDN lists as well; and the rule has a
  \<open>securityProfileGroup\<close> keyword on ALPHA only.
\<close>

theorem Update_Run_shape_by_track:
  assumes "Update_Run h track args = Inr c"
  shows "(securityProfileGroup (update_firewall_policy_rule c) = None) = (track \<noteq> ALPHA)
       \<and> (\<forall>m. match (update_firewall_policy_rule c) = Some m \<longrightarrow>
            matcher_fields m =
              (case track of
                 GA \<Rightarrow> [''srcIpRanges'', ''destIpRanges'', ''layer4Configs'']
               | BETA \<Rightarrow> [''srcIpRanges'', ''destIpRanges'', ''layer4Configs'',
                          ''srcRegionCodes'', ''destRegionCodes'',
                          ''srcThreatIntelligences'', ''destThreatIntelligences'']
               | ALPHA \<Rightarrow> [''srcIpRanges'', ''destIpRanges'', ''layer4Configs'',
                           ''srcFqdns'', ''destFqdns'', ''srcRegionCodes'',
                           ''destRegionCodes'', ''srcThreatIntelligences'',
                           ''destThreatIntelligences'']))"
proof -
  from assms obtain ref_name prio l traffic_direct act descr where
    r: "update_firewall_policy_rule c
          = build_rule track l act (build_matcher track l) traffic_direct descr"
    by (rule Update_Run_Inr)
  have "(securityProfileGroup (update_firewall_policy_rule c) = None) = (track \<noteq> ALPHA)"
    by (simp add: r build_rule_def)
  moreover have "match (update_firewall_policy_rule c) = build_matcher track l"
    by (simp add: r build_rule_def)
  ultimately show ?thesis
    by (simp add: build_matcher_fields)
qed

theorem Update_Run_shape_by_track_witness:
  "Update_Run firewall_fixture GA (example_update GA) = Inr (example_call ga_matcher None)
   \<and> matcher_fields ga_matcher = [''srcIpRanges'', ''destIpRanges'', ''layer4Configs'']
   \<and> Update_Run firewall_fixture BETA (example_update BETA)
       = Inr (example_call beta_matcher None)
   \<and> matcher_fields beta_matcher
       = [''srcIpRanges'', ''destIpRanges'', ''layer4Configs'', ''srcRegionCodes'',
          ''destRegionCodes'', ''srcThreatIntelligences'', ''destThreatIntelligences'']
   \<and> Update_Run firewall_fixture ALPHA (example_update ALPHA)
       = Inr (example_call alpha_matcher (Some VNone))
   \<and> matcher_fields alpha_matcher
       = [''srcIpRanges'', ''destIpRanges'', ''layer4Configs'', ''srcFqdns'', ''destFqdns'',
          ''srcRegionCodes'', ''destRegionCodes'', ''srcThreatIntelligences'',
          ''destThreatIntelligences'']"
  using Update_Run_shape_by_track [OF example_update_GA]
    Update_Run_shape_by_track [OF example_update_BETA]
    Update_Run_shape_by_track [OF example_update_ALPHA]
    example_update_GA example_update_BETA example_update_ALPHA
  by (simp add: example_call_def)

text \<open>
  C10. When \<open>--new-priority\<close> is not given, the rule that is sent carries the priority
  converted from the name of the rule reference, which is also the priority the update
  call addresses the rule by.
\<close>

theorem priority_kept_without_new_priority:
  assumes "Update_Run h track args = Inr c"
    and "''new_priority'' \<notin> set (specified args)"
  shows "\<exists>ref_name. ResolveAsResource_Name h args = Inr ref_name
           \<and> ConvertPriorityToInt h (VStr ref_name)
               = Inr (priority (update_firewall_policy_rule c))
           \<and> update_priority c = priority (update_firewall_policy_rule c)"
proof -
  from assms(1) obtain ref_name prio l traffic_direct act descr where
    r: "ResolveAsResource_Name h args = Inr ref_name"
       "ConvertPriorityToInt h (VStr ref_name) = Inr prio"
       "read_flags h track args prio = Inr l"
       "update_priority c = prio"
       "update_firewall_policy_rule c
          = build_rule track l act (build_matcher track l) traffic_direct descr"
    by (rule Update_Run_Inr)
  have "new_priority l = prio" using r(3) assms(2) by (rule read_flags_new_priority)
  then have "priority (update_firewall_policy_rule c) = prio"
    by (simp add: r(5) build_rule_def)
  with r show ?thesis by simp
qed

theorem priority_kept_without_new_priority_witness:
  "Update_Run firewall_fixture GA (example_update GA) = Inr (example_call ga_matcher None)
   \<and> ''new_priority'' \<notin> set (specified (example_update GA))
   \<and> ResolveAsResource_Name firewall_fixture (example_update GA) = Inr ''10''
   \<and> ConvertPriorityToInt firewall_fixture (VStr ''10'') = Inr 10
   \<and> priority (update_firewall_policy_rule (example_call ga_matcher None)) = 10
   \<and> update_priority (example_call ga_matcher None) = 10"
proof -
  have n: "''new_priority'' \<notin> set (specified (example_update GA))"
    by (simp add: example_update_def parsed_def)
  show ?thesis
    using priority_kept_without_new_priority [OF example_update_GA n] example_update_GA n
    by (auto simp: firewall_fixture_def example_call_def)
qed

section \<open>The organisation policy simulation\<close>

text \<open>
  C9. The claim: a command line that passes the first check, and in particular one that
  gives \<open>--custom-constraints\<close> only, gets through the argument processing without
  raising. The code on such a command line, whatever the helpers do: \<open>args.policies\<close> is
  \<open>None\<close>, and the loop over it at line 100 raises TypeError. With an empty list of
  policies the run ends in an exception as well (\<open>policies[0]\<close> at line 124, if no helper
  raises before), and so does a run with \<open>--policies\<close> only (the loop at line 109).
\<close>

theorem SimulateAlpha_Run_only_custom_constraints:
  "SimulateAlpha_Run h only_custom_constraints = Inl TypeError
   \<and> (\<exists>e. SimulateAlpha_Run h empty_policies = Inl e)
   \<and> (\<exists>e. SimulateAlpha_Run h only_policies = Inl e)"
proof -
  have 1: "SimulateAlpha_Run h only_custom_constraints = Inl TypeError"
    by (simp add: SimulateAlpha_Run_def neither_given_def only_custom_constraints_def
          parsed_def getattr_def bindE_simps)
  have 2: "\<exists>e. SimulateAlpha_Run h empty_policies = Inl e"
    by (auto simp: SimulateAlpha_Run_def neither_given_def parsed_def empty_policies_def
          getattr_def bindE_def first_def split: sum.splits)
  have 3: "\<exists>e. SimulateAlpha_Run h only_policies = Inl e"
    by (auto simp: SimulateAlpha_Run_def neither_given_def parsed_def only_policies_def
          getattr_def bindE_def split: sum.splits)
  from 1 2 3 show ?thesis by simp
qed

section \<open>The cluster creation\<close>

subsection \<open>What a step can change\<close>

lemma bindM_Inl: "m w = (Inl e, w') \<Longrightarrow> bindM m f w = (Inl e, w')"
  by (simp add: bindM_def)

lemma bindM_Inr: "m w = (Inr x, w') \<Longrightarrow> bindM m f w = f x w'"
  by (simp add: bindM_def)

lemma keeps_calls_bindM:
  assumes "keeps_calls m" "\<And>x. keeps_calls (f x)"
  shows "keeps_calls (bindM m f)"
  unfolding keeps_calls_def
proof
  fix w
  obtain r w' where mw: "m w = (r, w')" by (cases "m w")
  have c: "calls w' = calls w" using assms(1) mw by (auto simp: keeps_calls_def dest: spec[of _ w])
  show "calls (snd (bindM m f w)) = calls w"
  proof (cases r)
    case (Inl e)
    then show ?thesis using mw c by (simp add: bindM_def)
  next
    case (Inr x)
    have "calls (snd (f x w')) = calls w'" using assms(2)[of x] by (simp add: keeps_calls_def)
    then show ?thesis using Inr mw c by (simp add: bindM_def)
  qed
qed

lemma keeps_calls_basic:
  "keeps_calls (returnM x)" "keeps_calls (raiseM e)" "keeps_calls (liftM r)"
  "keeps_calls (readM f)" "keeps_calls (printM entry)" "keeps_calls (tellM t)"
  "keeps_calls (setattrM dest v)"
  by (auto simp: keeps_calls_def returnM_def raiseM_def liftM_def readM_def printM_def
        tellM_def setattrM_def split: sum.splits)

lemma keeps_calls_whenM: "keeps_calls m \<Longrightarrow> keeps_calls (whenM b m)"
  by (simp add: whenM_def keeps_calls_basic)

lemma keeps_calls_if: "keeps_calls m \<Longrightarrow> keeps_calls n \<Longrightarrow> keeps_calls (if b then m else n)"
  by simp

lemma keeps_calls_mungeM: "keeps_calls (mungeM h)"
  by (auto simp: keeps_calls_def mungeM_def split: sum.splits)

lemmas keeps_calls_intros = keeps_calls_bindM keeps_calls_basic keeps_calls_whenM
  keeps_calls_if keeps_calls_mungeM

lemma keeps_calls_MaybeLog: "keeps_calls (MaybeLogCloudNatHelpText args a l p)"
  by (simp add: MaybeLogCloudNatHelpText_def keeps_calls_intros)

lemma keeps_calls_read_autorepair: "keeps_calls (read_autorepair h args)"
  by (simp add: read_autorepair_def keeps_calls_intros)

lemma keeps_calls_Parse: "keeps_calls (ParseCreateOptionsBase h a gd l p)"
  unfolding ParseCreateOptionsBase_def Let_def
  by (intro keeps_calls_intros keeps_calls_MaybeLog keeps_calls_read_autorepair)



subsection \<open>The submit, the wait and the fetch\<close>

lemma Create_Run_prepared:
  assumes "prepare self h w0 = (Inr (cluster_ref, options), w)"
  shows "Create_Run self h w0 =
           bindM (submit_and_wait h (api_adapter self) cluster_ref options)
             (\<lambda>outcome. case outcome of
                           Returned cluster \<Rightarrow> returnM cluster
                         | Created operation cluster \<Rightarrow>
                             report_created h cluster_ref operation cluster) w"
  using assms by (simp add: Create_Run_def bindM_def)

lemma submit_rejected:
  assumes "CreateCluster adapter cluster_ref options = Inl (HttpError error)"
  shows "submit_and_wait h adapter cluster_ref options w =
           (Inl (HttpException error (HTTP_ERROR_FORMAT h)),
            w\<lparr>calls := calls w @ [CreateCluster_call]\<rparr>)"
  using assms
  by (simp add: submit_and_wait_def wait_and_fetch_def except_HttpError_def bindM_def callM_def raiseM_def)

lemma submit_wait_failed:
  assumes "CreateCluster adapter cluster_ref options = Inr operation_ref"
    and "getattr (namespace w) ''async_'' = Inr async" and "\<not> truthy async"
    and "getattr (namespace w) ''timeout'' = Inr timeout_s"
    and "WaitForOperation adapter operation_ref
           (''Creating cluster '' @ clusterId cluster_ref @ '' in '' @ zone cluster_ref)
           timeout_s = Inl (HttpError error)"
  shows "submit_and_wait h adapter cluster_ref options w =
           (Inl (HttpException error (HTTP_ERROR_FORMAT h)),
            w\<lparr>calls := calls w @ [CreateCluster_call, WaitForOperation_call]\<rparr>)"
  using assms
  by (simp add: submit_and_wait_def wait_and_fetch_def except_HttpError_def bindM_def callM_def raiseM_def
        readM_def)


lemma submit_created:
  assumes "CreateCluster adapter cluster_ref options = Inr operation_ref"
    and "getattr (namespace w) ''async_'' = Inr async" and "\<not> truthy async"
    and "getattr (namespace w) ''timeout'' = Inr timeout_s"
    and "WaitForOperation adapter operation_ref
           (''Creating cluster '' @ clusterId cluster_ref @ '' in '' @ zone cluster_ref)
           timeout_s = Inr operation"
    and "GetCluster adapter cluster_ref = Inr cluster"
  shows "submit_and_wait h adapter cluster_ref options w =
           (Inr (Created operation cluster),
            w\<lparr>calls := calls w @ [CreateCluster_call, WaitForOperation_call, GetCluster_call]\<rparr>)"
  using assms
  by (simp add: submit_and_wait_def wait_and_fetch_def except_HttpError_def bindM_def callM_def returnM_def
        readM_def)


lemma keeps_calls_except_MissingEnvVarError:
  assumes "keeps_calls m" "\<And>e. keeps_calls (f e)"
  shows "keeps_calls (except_MissingEnvVarError m f)"
  unfolding keeps_calls_def
proof
  fix w
  obtain r w' where mw: "m w = (r, w')" by (cases "m w")
  have c: "calls w' = calls w" using assms(1) mw by (auto simp: keeps_calls_def dest: spec[of _ w])
  have "\<And>e. calls (snd (f e w')) = calls w'" using assms(2) by (simp add: keeps_calls_def)
  then show "calls (snd (except_MissingEnvVarError m f w)) = calls w"
    using mw c by (auto simp: except_MissingEnvVarError_def split: sum.splits exn.splits)
qed

lemma keeps_calls_report_created: "keeps_calls (report_created h cluster_ref operation cluster)"
  unfolding report_created_def
  by (intro keeps_calls_intros keeps_calls_except_MissingEnvVarError)



lemma report_created_eq:
  "report_created h cluster_ref operation cluster w =
     (let w1 = w\<lparr>printed := printed w
                  @ [CreatedResource cluster_ref,
                     Status (''To inspect the contents of your cluster, go to: ''
                             @ GenerateClusterUrl h cluster_ref)]
                  @ (if truthy (detail operation) then [Warning (detail operation)] else [])\<rparr>
      in case Persist h cluster (projectId cluster_ref) of
           Inr u \<Rightarrow> (Inr (VList [cluster]), w1)
         | Inl e \<Rightarrow>
             (case e of
                MissingEnvVarError m \<Rightarrow>
                  (Inr (VList [cluster]), w1\<lparr>printed := printed w1 @ [Warning (VStr m)]\<rparr>)
              | _ \<Rightarrow> (Inl e, w1)))"
proof (cases "Persist h cluster (projectId cluster_ref)")
  case (Inr u)
  then show ?thesis
    by (simp add: report_created_def bindM_def printM_def whenM_def returnM_def liftM_def
          except_MissingEnvVarError_def Let_def)
next
  case (Inl e)
  then show ?thesis
    by (cases e)
       (simp_all add: report_created_def bindM_def printM_def whenM_def returnM_def liftM_def
          except_MissingEnvVarError_def Let_def)
qed
lemma bindM_keeps_calls_after:
  assumes "\<And>x. keeps_calls (k x)"
  shows "calls (snd (bindM m k w)) = calls (snd (m w))"
proof -
  obtain r w' where mw: "m w = (r, w')" by (cases "m w")
  show ?thesis
  proof (cases r)
    case (Inl e)
    then show ?thesis using mw by (simp add: bindM_def)
  next
    case (Inr x)
    have "calls (snd (k x w')) = calls w'" using assms[of x] by (simp add: keeps_calls_def)
    then show ?thesis using Inr mw by (simp add: bindM_def)
  qed
qed

lemma except_HttpError_raise_calls:
  "calls (snd (except_HttpError m (\<lambda>error. raiseM (f error)) w)) = calls (snd (m w))"
proof -
  obtain r w' where mw: "m w = (r, w')" by (cases "m w")
  show ?thesis
  proof (cases r)
    case (Inl e)
    then show ?thesis using mw by (cases e) (simp_all add: except_HttpError_def raiseM_def)
  next
    case (Inr x)
    then show ?thesis using mw by (simp add: except_HttpError_def)
  qed
qed

lemma wait_and_fetch_calls:
  "\<exists>rest. calls (snd (wait_and_fetch adapter cluster_ref operation_ref w)) = calls w @ rest
          \<and> CreateCluster_call \<notin> set rest"
  by (auto simp: wait_and_fetch_def bindM_def callM_def returnM_def readM_def
        split: sum.splits)

lemma submit_and_wait_calls:
  "\<exists>rest. calls (snd (submit_and_wait h adapter cluster_ref options w))
            = calls w @ CreateCluster_call # rest
          \<and> CreateCluster_call \<notin> set rest"
proof (cases "CreateCluster adapter cluster_ref options")
  case (Inl e)
  then have "calls (snd (submit_and_wait h adapter cluster_ref options w))
               = calls w @ [CreateCluster_call]"
    by (simp add: submit_and_wait_def except_HttpError_raise_calls bindM_def callM_def)
  then show ?thesis by simp
next
  case (Inr operation_ref)
  let ?w = "w\<lparr>calls := calls w @ [CreateCluster_call]\<rparr>"
  obtain rest where
    "calls (snd (wait_and_fetch adapter cluster_ref operation_ref ?w)) = calls ?w @ rest"
    "CreateCluster_call \<notin> set rest"
    using wait_and_fetch_calls[of adapter cluster_ref operation_ref ?w] by blast
  then have "calls (snd (submit_and_wait h adapter cluster_ref options w))
               = calls w @ CreateCluster_call # rest \<and> CreateCluster_call \<notin> set rest"
    using Inr
    by (simp add: submit_and_wait_def except_HttpError_raise_calls bindM_def callM_def)
  then show ?thesis by blast
qed

lemma Create_Run_calls:
  assumes "prepare self h w0 = (Inr (cluster_ref, options), w)"
  shows "calls (snd (Create_Run self h w0))
           = calls (snd (submit_and_wait h (api_adapter self) cluster_ref options w))"
proof -
  have "\<And>outcome. keeps_calls (case outcome of
                          Returned cluster \<Rightarrow> returnM cluster
                        | Created operation cluster \<Rightarrow>
                            report_created h cluster_ref operation cluster)"
    by (simp add: keeps_calls_basic keeps_calls_report_created split: TryOutcome.splits)
  then show ?thesis
    unfolding Create_Run_prepared[OF assms] by (rule bindM_keeps_calls_after)
qed

lemma count_once:
  assumes "xs = ys @ c # rest" "c \<notin> set rest"
  shows "count_list xs c = count_list ys c + 1"
  using assms by (simp add: count_list_0_iff)

lemma keeps_calls_print_notes: "keeps_calls (print_notes h options)"
  unfolding print_notes_def by (intro keeps_calls_intros)

lemma keeps_calls_check_dns_scope: "keeps_calls (check_dns_scope track options)"
  by (simp add: check_dns_scope_def keeps_calls_basic split: val.splits)

lemma keeps_calls_confirm_and_warn: "keeps_calls (confirm_and_warn h cluster_ref options)"
  unfolding confirm_and_warn_def by (intro keeps_calls_intros)

lemma keeps_calls_prepare:
  assumes "\<And>location project_id. keeps_calls (ParseCreateOptions self location project_id)"
  shows "keeps_calls (prepare self h)"
  unfolding prepare_def
  by (intro keeps_calls_intros assms keeps_calls_print_notes keeps_calls_check_dns_scope
        keeps_calls_confirm_and_warn)

lemma prepare_same_ParseCluster:
  assumes "ParseCluster adapter = ParseCluster (api_adapter self)"
  shows "prepare (self\<lparr>api_adapter := adapter\<rparr>) h = prepare self h"
  by (simp add: prepare_def assms)

lemma Create_Run_created:
  assumes "prepare self h w0 = (Inr (cluster_ref, options), w)"
    and "CreateCluster (api_adapter self) cluster_ref options = Inr operation_ref"
    and "getattr (namespace w) ''async_'' = Inr async" and "\<not> truthy async"
    and "getattr (namespace w) ''timeout'' = Inr timeout_s"
    and "WaitForOperation (api_adapter self) operation_ref
           (''Creating cluster '' @ clusterId cluster_ref @ '' in '' @ zone cluster_ref)
           timeout_s = Inr operation"
    and "GetCluster (api_adapter self) cluster_ref = Inr cluster"
  shows "Create_Run self h w0 =
           report_created h cluster_ref operation cluster
             (w\<lparr>calls := calls w @ [CreateCluster_call, WaitForOperation_call, GetCluster_call]\<rparr>)"
  unfolding Create_Run_prepared[OF assms(1)]
  by (simp add: bindM_def submit_created[OF assms(2-7)])


subsection \<open>The sample command line\<close>

text \<open>
  How \<open>Run\<close> reads the options \<open>ParseCreateOptionsBase\<close> builds: \<open>private_cluster\<close>
  and \<open>enable_pod_security_policy\<close> are not among its keywords.
\<close>

lemma options_private_cluster:
  "option_attr (CreateClusterOptions gd args a c r u i x d m) ''private_cluster''
     = VNone"
  by code_simp
lemma options_enable_ip_alias:
  "option_attr (CreateClusterOptions gd args a c r u i x d m) ''enable_ip_alias''
     = i"
  by code_simp
lemma options_cluster_ipv4_cidr:
  "option_attr (CreateClusterOptions gd args a c r u i x d m) ''cluster_ipv4_cidr''
     = gd ''cluster_ipv4_cidr''"
  by code_simp
lemma options_enable_l4_ilb_subsetting:
  "option_attr (CreateClusterOptions gd args a c r u i x d m) ''enable_l4_ilb_subsetting''
     = gd ''enable_l4_ilb_subsetting''"
  by code_simp
lemma options_enable_pod_security_policy:
  "option_attr (CreateClusterOptions gd args a c r u i x d m) ''enable_pod_security_policy''
     = VNone"
  by code_simp
lemma options_cluster_dns:
  "option_attr (CreateClusterOptions gd args a c r u i x d m) ''cluster_dns''
     = gd ''cluster_dns''"
  by code_simp
lemma options_enable_kubernetes_alpha:
  "option_attr (CreateClusterOptions gd args a c r u i x d m) ''enable_kubernetes_alpha''
     = gd ''enable_kubernetes_alpha''"
  by code_simp
lemma options_accelerators:
  "option_attr (CreateClusterOptions gd args a c r u i x d m) ''accelerators''
     = gd ''accelerator''"
  by code_simp
lemma options_enable_image_streaming:
  "option_attr (CreateClusterOptions gd args a c r u i x d m) ''enable_image_streaming''
     = gd ''enable_image_streaming''"
  by code_simp


lemmas CreateClusterOptions_attrs =
  options_private_cluster options_enable_ip_alias options_cluster_ipv4_cidr options_enable_l4_ilb_subsetting
  options_enable_pod_security_policy options_cluster_dns options_enable_kubernetes_alpha options_accelerators options_enable_image_streaming

lemma sample_flag_values:
  "AttrValue (namespace sample_world) ''cluster_ipv4_cidr'' base_flag_defaults = VNone"
  "AttrValue (namespace sample_world) ''enable_l4_ilb_subsetting'' base_flag_defaults = VNone"
  "AttrValue (namespace sample_world) ''cluster_dns'' base_flag_defaults = VNone"
  "AttrValue (namespace sample_world) ''enable_kubernetes_alpha'' base_flag_defaults = VNone"
  "AttrValue (namespace sample_world) ''accelerator'' base_flag_defaults = VNone"
  "AttrValue (namespace sample_world) ''enable_image_streaming'' base_flag_defaults = VNone"
  by (simp_all add: sample_world_def parsed_def AttrValue_def getattr_default_def
        DefaultAttribute_def base_flag_defaults_def)

lemma sample_option_attrs:
  "option_attr sample_options ''private_cluster'' = VNone"
  "option_attr sample_options ''enable_ip_alias'' = VNone"
  "option_attr sample_options ''cluster_ipv4_cidr'' = VNone"
  "option_attr sample_options ''enable_l4_ilb_subsetting'' = VNone"
  "option_attr sample_options ''enable_pod_security_policy'' = VNone"
  "option_attr sample_options ''cluster_dns'' = VNone"
  "option_attr sample_options ''enable_kubernetes_alpha'' = VNone"
  "option_attr sample_options ''accelerators'' = VNone"
  "option_attr sample_options ''enable_image_streaming'' = VNone"
  by (simp_all add: sample_options_def CreateClusterOptions_attrs sample_flag_values)

lemma sample_namespace:
  "hasattr (namespace sample_world) ''enable_ip_alias''"
  "\<not> hasattr (namespace sample_world) ''enable_autorepair''"
  "\<not> hasattr (namespace sample_world) ''enable_autoupgrade''"
  "\<not> hasattr (namespace sample_world) ''disk_size''"
  "getattr (namespace sample_world) ''async_'' = Inr (VBool False)"
  "getattr (namespace sample_world) ''name'' = Inr (VStr ''sample-cluster'')"
  "getattr (namespace sample_world) ''timeout'' = Inr (VInt 3600)"
  "AttrValue (namespace sample_world) ''enable_ip_alias'' base_flag_defaults = VNone"
  "AttrValue (namespace sample_world) ''metadata'' base_flag_defaults = VNone"
  "AttrValue (namespace sample_world) ''metadata_from_file'' base_flag_defaults = VNone"
  "AttrValue (namespace sample_world) ''addons'' base_flag_defaults = VNone"
  by (simp_all add: sample_world_def parsed_def hasattr_def getattr_def AttrValue_def
        getattr_default_def DefaultAttribute_def base_flag_defaults_def)

lemma sample_parse:
  "Create_ParseCreateOptions create_fixture location project_id sample_world
     = (Inr sample_options, sample_world)"
  by (simp add: Create_ParseCreateOptions_def ParseCreateOptionsBase_def Let_def bindM_def
        mungeM_def whenM_def tellM_def liftM_def returnM_def read_autorepair_def
        MaybeLogCloudNatHelpText_def create_fixture_def sample_namespace sample_options_def)

lemma sample_prepare:
  assumes "ParseCluster adapter = (\<lambda>name location. Inr sample_ref)"
  shows "prepare (ga_command adapter) create_fixture sample_world
           = (Inr (sample_ref, sample_options), sample_world)"
proof -
  have p: "ParseCreateOptions (ga_command adapter) = Create_ParseCreateOptions create_fixture"
    by (simp add: ga_command_def)
  have n: "print_notes create_fixture sample_options sample_world = (Inr (), sample_world)"
    by (simp add: print_notes_def bindM_def whenM_def returnM_def liftM_def
          sample_option_attrs create_fixture_def)
  have d: "check_dns_scope GA sample_options sample_world = (Inr (), sample_world)"
    by (simp add: check_dns_scope_def sample_option_attrs returnM_def)
  have c: "confirm_and_warn create_fixture sample_ref sample_options sample_world
             = (Inr (), sample_world)"
    by (simp add: confirm_and_warn_def bindM_def whenM_def returnM_def sample_option_attrs)
  have k: "tellM (CheckKubectlInstalled create_fixture) sample_world = (Inr (), sample_world)"
    by (simp add: tellM_def create_fixture_def)
  show ?thesis
    unfolding prepare_def
    by (simp add: bindM_def readM_def whenM_def returnM_def liftM_def sample_namespace
          k sample_parse n d c assms ga_command_def)
qed

lemma adapters_ParseCluster:
  "ParseCluster sample_adapter = (\<lambda>name location. Inr sample_ref)"
  "ParseCluster rejecting_adapter = (\<lambda>name location. Inr sample_ref)"
  "ParseCluster wait_failing_adapter = (\<lambda>name location. Inr sample_ref)"
  "ParseCluster fetch_failing_adapter = (\<lambda>name location. Inr sample_ref)"
  by (simp_all add: sample_adapter_def rejecting_adapter_def wait_failing_adapter_def
        fetch_failing_adapter_def)

lemma api_adapter_ga_command: "api_adapter (ga_command adapter) = adapter"
  by (simp add: ga_command_def)

lemma sample_run_facts:
  "CreateCluster sample_adapter sample_ref sample_options = Inr (VStr ''operation-1'')"
  "CreateCluster wait_failing_adapter sample_ref sample_options = Inr (VStr ''operation-1'')"
  "CreateCluster fetch_failing_adapter sample_ref sample_options = Inr (VStr ''operation-1'')"
  "CreateCluster rejecting_adapter sample_ref sample_options
     = Inl (HttpError (VStr ''409 conflict''))"
  "WaitForOperation sample_adapter operation_ref msg timeout_s = Inr sample_operation"
  "WaitForOperation fetch_failing_adapter operation_ref msg timeout_s = Inr sample_operation"
  "WaitForOperation wait_failing_adapter operation_ref msg timeout_s
     = Inl (HttpError (VStr ''403 forbidden''))"
  "GetCluster sample_adapter sample_ref = Inr (VStr ''sample-cluster'')"
  "GetCluster fetch_failing_adapter sample_ref = Inl (HttpError (VStr ''403 forbidden''))"
  by (simp_all add: sample_adapter_def rejecting_adapter_def wait_failing_adapter_def
        fetch_failing_adapter_def)


subsection \<open>The claims\<close>

text \<open>
  C3. For every pair of options the command declares exclusive on its release track,
  a command line that gives both is rejected with ConflictingOptionsError whatever the
  values are, and the world is left as it was: no adapter call is made and nothing is
  printed.
\<close>

theorem exclusive_options_rejected:
  assumes "pair \<in> set (exclusive_pairs (ReleaseTrack_of self))"
    and "fst pair \<in> set (specified (namespace w))"
    and "snd pair \<in> set (specified (namespace w))"
  shows "\<exists>a b. Create_command self h w = (Inl (ConflictingOptionsError a b), w)"
proof -
  have "pair \<in> set (filter (both_set (namespace w)) (exclusive_pairs (ReleaseTrack_of self)))"
    using assms by (simp add: both_set_def)
  then obtain p ps where
    "filter (both_set (namespace w)) (exclusive_pairs (ReleaseTrack_of self)) = p # ps"
    by (cases "filter (both_set (namespace w)) (exclusive_pairs (ReleaseTrack_of self))") auto
  then have "Create_command self h w = (Inl (ConflictingOptionsError (fst p) (snd p)), w)"
    by (simp add: Create_command_def bindM_def readM_def validate_exclusive_def)
  then show ?thesis by blast
qed

theorem exclusive_options_rejected_witness:
  "(''subnetwork'', ''create_subnetwork'')
      \<in> set (exclusive_pairs (ReleaseTrack_of (ga_command sample_adapter)))
   \<and> ''subnetwork'' \<in> set (specified (namespace (conflicting_world
         [(''subnetwork'', VStr ''default''), (''create_subnetwork'', VDict [])])))
   \<and> ''create_subnetwork'' \<in> set (specified (namespace (conflicting_world
         [(''subnetwork'', VStr ''default''), (''create_subnetwork'', VDict [])])))
   \<and> Create_command (ga_command sample_adapter) create_fixture
        (conflicting_world [(''subnetwork'', VStr ''default''), (''create_subnetwork'', VDict [])])
      = (Inl (ConflictingOptionsError ''subnetwork'' ''create_subnetwork''),
         conflicting_world [(''subnetwork'', VStr ''default''), (''create_subnetwork'', VDict [])])
   \<and> (''additional_zones'', ''node_locations'')
      \<in> set (exclusive_pairs (ReleaseTrack_of beta_command))
   \<and> Create_command beta_command create_fixture
        (conflicting_world [(''additional_zones'', VList [VStr ''us-central1-b'']),
                            (''node_locations'', VList [VStr ''us-central1-c''])])
      = (Inl (ConflictingOptionsError ''additional_zones'' ''node_locations''),
         conflicting_world [(''additional_zones'', VList [VStr ''us-central1-b'']),
                            (''node_locations'', VList [VStr ''us-central1-c''])])"
proof -
  let ?w = "conflicting_world [(''subnetwork'', VStr ''default''), (''create_subnetwork'', VDict [])]"
  let ?z = "conflicting_world [(''additional_zones'', VList [VStr ''us-central1-b'']),
                               (''node_locations'', VList [VStr ''us-central1-c''])]"
  have 1: "(''subnetwork'', ''create_subnetwork'')
             \<in> set (exclusive_pairs (ReleaseTrack_of (ga_command sample_adapter)))"
    by (simp add: exclusive_pairs_def)
  have 2: "fst (''subnetwork'', ''create_subnetwork'') \<in> set (specified (namespace ?w))"
    by (simp add: conflicting_world_def parsed_def)
  have 3: "snd (''subnetwork'', ''create_subnetwork'') \<in> set (specified (namespace ?w))"
    by (simp add: conflicting_world_def parsed_def)
  have 4: "Create_command (ga_command sample_adapter) create_fixture ?w
             = (Inl (ConflictingOptionsError ''subnetwork'' ''create_subnetwork''), ?w)"
    by (simp add: Create_command_def bindM_def readM_def validate_exclusive_def
          exclusive_pairs_def ga_command_def both_set_def conflicting_world_def parsed_def)
  have 5: "(''additional_zones'', ''node_locations'')
             \<in> set (exclusive_pairs (ReleaseTrack_of beta_command))"
    by (simp add: exclusive_pairs_def beta_command_def ga_command_def)
  have 6: "fst (''additional_zones'', ''node_locations'') \<in> set (specified (namespace ?z))"
    by (simp add: conflicting_world_def parsed_def)
  have 7: "snd (''additional_zones'', ''node_locations'') \<in> set (specified (namespace ?z))"
    by (simp add: conflicting_world_def parsed_def)
  have 8: "Create_command beta_command create_fixture ?z
             = (Inl (ConflictingOptionsError ''additional_zones'' ''node_locations''), ?z)"
    by (simp add: Create_command_def bindM_def readM_def validate_exclusive_def
          beta_command_def exclusive_pairs_def ga_command_def both_set_def
          conflicting_world_def parsed_def)
  from exclusive_options_rejected [OF 1 2 3, of create_fixture]
       exclusive_options_rejected [OF 5 6 7, of create_fixture] 1 2 3 4 5 8
  show ?thesis by simp
qed

text \<open>
  C5. Once \<open>Run\<close> has reached the \<open>try\<close> block, it calls \<open>CreateCluster\<close> exactly
  once whatever the adapter answers; when that call fails with a transport error, \<open>Run\<close>
  ends at once with HttpException carrying the error, and \<open>CreateCluster\<close> is the only
  adapter call it has made. Nothing before the block calls the adapter when the options
  are parsed by \<open>Create.ParseCreateOptions\<close>.
\<close>

theorem submit_once:
  assumes "prepare self h w0 = (Inr (cluster_ref, options), w)"
  shows "count_list (calls (snd (Create_Run self h w0))) CreateCluster_call
           = count_list (calls w) CreateCluster_call + 1
       \<and> (\<forall>error. CreateCluster (api_adapter self) cluster_ref options = Inl (HttpError error)
            \<longrightarrow> Create_Run self h w0
                  = (Inl (HttpException error (HTTP_ERROR_FORMAT h)),
                     w\<lparr>calls := calls w @ [CreateCluster_call]\<rparr>))
       \<and> (ParseCreateOptions self = Create_ParseCreateOptions h \<longrightarrow> calls w = calls w0)"
proof -
  obtain rest where
    "calls (snd (submit_and_wait h (api_adapter self) cluster_ref options w))
       = calls w @ CreateCluster_call # rest" "CreateCluster_call \<notin> set rest"
    using submit_and_wait_calls by blast
  then have 1: "count_list (calls (snd (Create_Run self h w0))) CreateCluster_call
                  = count_list (calls w) CreateCluster_call + 1"
    unfolding Create_Run_calls[OF assms] by (rule count_once)
  have 2: "Create_Run self h w0
             = (Inl (HttpException error (HTTP_ERROR_FORMAT h)),
                w\<lparr>calls := calls w @ [CreateCluster_call]\<rparr>)"
    if "CreateCluster (api_adapter self) cluster_ref options = Inl (HttpError error)" for error
    unfolding Create_Run_prepared[OF assms]
    by (simp add: bindM_def submit_rejected[OF that])
  have 3: "calls w = calls w0" if "ParseCreateOptions self = Create_ParseCreateOptions h"
  proof -
    have "keeps_calls (prepare self h)"
      by (rule keeps_calls_prepare)
         (simp add: that Create_ParseCreateOptions_def keeps_calls_Parse)
    then have "calls (snd (prepare self h w0)) = calls w0" by (simp add: keeps_calls_def)
    then show ?thesis by (simp add: assms)
  qed
  from 1 2 3 show ?thesis by blast
qed

theorem submit_once_witness:
  "prepare (ga_command rejecting_adapter) create_fixture sample_world
     = (Inr (sample_ref, sample_options), sample_world)
   \<and> CreateCluster (api_adapter (ga_command rejecting_adapter)) sample_ref sample_options
       = Inl (HttpError (VStr ''409 conflict''))
   \<and> ParseCreateOptions (ga_command rejecting_adapter) = Create_ParseCreateOptions create_fixture
   \<and> Create_Run (ga_command rejecting_adapter) create_fixture sample_world
       = (Inl (HttpException (VStr ''409 conflict'') (HTTP_ERROR_FORMAT create_fixture)),
          sample_world\<lparr>calls := calls sample_world @ [CreateCluster_call]\<rparr>)
   \<and> count_list (calls (snd (Create_Run (ga_command rejecting_adapter) create_fixture
                                 sample_world))) CreateCluster_call
       = count_list (calls sample_world) CreateCluster_call + 1"
proof -
  have p: "prepare (ga_command rejecting_adapter) create_fixture sample_world
             = (Inr (sample_ref, sample_options), sample_world)"
    by (rule sample_prepare) (rule adapters_ParseCluster)
  have c: "CreateCluster (api_adapter (ga_command rejecting_adapter)) sample_ref sample_options
             = Inl (HttpError (VStr ''409 conflict''))"
    by (simp add: ga_command_def rejecting_adapter_def)
  have g: "ParseCreateOptions (ga_command rejecting_adapter)
             = Create_ParseCreateOptions create_fixture"
    by (simp add: ga_command_def)
  show ?thesis using submit_once [OF p] p c g by blast
qed





text \<open>
  C7. When the operation has finished, the cluster was fetched and the operation carries
  a detail, the detail is printed as a warning, and it has no part in the result: \<open>Run\<close>
  returns the cluster unless writing the kubeconfig entry raises something other than
  MissingEnvVarError.
\<close>

theorem detail_is_a_warning:
  assumes "prepare self h w0 = (Inr (cluster_ref, options), w)"
    and "CreateCluster (api_adapter self) cluster_ref options = Inr operation_ref"
    and "getattr (namespace w) ''async_'' = Inr async" and "\<not> truthy async"
    and "getattr (namespace w) ''timeout'' = Inr timeout_s"
    and "WaitForOperation (api_adapter self) operation_ref
           (''Creating cluster '' @ clusterId cluster_ref @ '' in '' @ zone cluster_ref)
           timeout_s = Inr operation"
    and "GetCluster (api_adapter self) cluster_ref = Inr cluster"
    and "truthy (detail operation)"
  shows "Warning (detail operation) \<in> set (printed (snd (Create_Run self h w0)))
       \<and> fst (Create_Run self h w0)
           = (case Persist h cluster (projectId cluster_ref) of
                Inr u \<Rightarrow> Inr (VList [cluster])
              | Inl e \<Rightarrow> (case e of MissingEnvVarError m \<Rightarrow> Inr (VList [cluster])
                                   | _ \<Rightarrow> Inl e))"
proof (cases "Persist h cluster (projectId cluster_ref)")
  case (Inr u)
  then show ?thesis
    unfolding Create_Run_created[OF assms(1-7)] report_created_eq
    using assms(8) by (simp add: Let_def)
next
  case (Inl e)
  then show ?thesis
    unfolding Create_Run_created[OF assms(1-7)] report_created_eq
    using assms(8) by (cases e) (simp_all add: Let_def)
qed


theorem detail_is_a_warning_witness:
  "prepare (ga_command sample_adapter) create_fixture sample_world
     = (Inr (sample_ref, sample_options), sample_world)
   \<and> CreateCluster (api_adapter (ga_command sample_adapter)) sample_ref sample_options
       = Inr (VStr ''operation-1'')
   \<and> getattr (namespace sample_world) ''async_'' = Inr (VBool False)
   \<and> \<not> truthy (VBool False)
   \<and> getattr (namespace sample_world) ''timeout'' = Inr (VInt 3600)
   \<and> WaitForOperation (api_adapter (ga_command sample_adapter)) (VStr ''operation-1'')
         (''Creating cluster '' @ clusterId sample_ref @ '' in '' @ zone sample_ref) (VInt 3600)
       = Inr sample_operation
   \<and> GetCluster (api_adapter (ga_command sample_adapter)) sample_ref
       = Inr (VStr ''sample-cluster'')
   \<and> truthy (detail sample_operation)
   \<and> Warning (VStr ''quota is nearly exhausted'')
       \<in> set (printed (snd (Create_Run (ga_command sample_adapter) create_fixture sample_world)))
   \<and> fst (Create_Run (ga_command sample_adapter) create_fixture sample_world)
       = Inr (VList [VStr ''sample-cluster''])"
proof -
  have p: "prepare (ga_command sample_adapter) create_fixture sample_world
             = (Inr (sample_ref, sample_options), sample_world)"
    by (rule sample_prepare) (rule adapters_ParseCluster)
  have c: "CreateCluster (api_adapter (ga_command sample_adapter)) sample_ref
             sample_options = Inr (VStr ''operation-1'')"
    by (simp add: api_adapter_ga_command sample_run_facts)
  have t: "\<not> truthy (VBool False)" by simp
  have w: "WaitForOperation (api_adapter (ga_command sample_adapter))
             (VStr ''operation-1'')
             (''Creating cluster '' @ clusterId sample_ref @ '' in '' @ zone sample_ref)
             (VInt 3600) = Inr sample_operation"
    by (simp add: api_adapter_ga_command sample_run_facts)
  have g: "GetCluster (api_adapter (ga_command sample_adapter)) sample_ref
             = Inr (VStr ''sample-cluster'')"
    by (simp add: api_adapter_ga_command sample_run_facts)
  have d: "truthy (detail sample_operation)" by (simp add: sample_operation_def)
  have dv: "detail sample_operation = VStr ''quota is nearly exhausted''"
    by (simp add: sample_operation_def)
  have ps: "Persist create_fixture (VStr ''sample-cluster'') (projectId sample_ref) = Inr ()"
    by (simp add: create_fixture_def)
  show ?thesis
    using detail_is_a_warning
            [OF p c sample_namespace(5) t sample_namespace(7) w g d]
          p c sample_namespace(5) sample_namespace(7) w g d
    by (simp add: dv ps)
qed


section \<open>Options a release track does not support\<close>

lemma parse_args_registered:
  assumes "set (map fst given) \<subseteq> set dests"
  shows "parse_args dests given = Inr (parsed dests given)"
proof -
  have "filter (\<lambda>dest. dest \<notin> set dests) (map fst given) = []"
    using assms by (auto simp: filter_empty_conv)
  then show ?thesis by (simp add: parse_args_def)
qed

lemma parse_args_refused:
  assumes "opt \<in> set (map fst given)" "opt \<notin> set dests"
  shows "\<exists>dest. dest \<in> set (map fst given) \<and> dest \<notin> set dests
           \<and> parse_args dests given = Inl (UnsupportedOptionError dest)"
proof -
  let ?refused = "filter (\<lambda>dest. dest \<notin> set dests) (map fst given)"
  have "opt \<in> set ?refused" using assms by simp
  then obtain dest rest where f: "?refused = dest # rest" by (cases ?refused) auto
  then have "dest \<in> set ?refused" by simp
  then have "dest \<in> set (map fst given)" "dest \<notin> set dests" by auto
  moreover have "parse_args dests given = Inl (UnsupportedOptionError dest)"
    using f by (simp add: parse_args_def)
  ultimately show ?thesis by blast
qed

lemma parse_args_Inr:
  assumes "parse_args dests given = Inr args"
  shows "args = parsed dests given" "set (map fst given) \<subseteq> set dests"
proof -
  let ?refused = "filter (\<lambda>dest. dest \<notin> set dests) (map fst given)"
  have e: "?refused = []" using assms by (cases ?refused) (simp_all add: parse_args_def)
  then show "args = parsed dests given" using assms by (simp add: parse_args_def)
  show "set (map fst given) \<subseteq> set dests" using e by (auto simp: filter_empty_conv)
qed

lemma returns_iff: "returns r = (\<exists>x. r = Inr x)"
  by (cases r) (simp_all add: returns_def)

lemma returns_Inr: "returns (Inr x)"
  by (simp add: returns_def)

lemma returns_bindE:
  assumes "returns m" "\<And>x. returns (f x)"
  shows "returns (bindE m f)"
proof -
  from assms(1) obtain x where "m = Inr x" by (auto simp: returns_iff)
  then show ?thesis using assms(2)[of x] by (simp add: bindE_def)
qed

lemma returns_if: "returns a \<Longrightarrow> returns b \<Longrightarrow> returns (if c then a else b)"
  by simp

lemma returns_case_prod:
  assumes "\<And>a b. returns (g a b)"
  shows "returns (case p of (a, b) \<Rightarrow> g a b)"
  using assms by (cases p) simp

lemmas returns_intros = returns_Inr returns_bindE returns_if returns_case_prod

lemma returns_parsed:
  assumes "dest \<in> set dests"
  shows "returns (IsSpecified (parsed dests given) dest)"
    and "returns (getattr (parsed dests given) dest)"
    and "returns (if_specified (parsed dests given) dest init)"
  using assms
  by (simp_all add: returns_def if_specified_def IsSpecified_def hasattr_def getattr_def
        parsed_def bindE_simps)

lemma registered_on_every_track:
  "''action'' \<in> set (Update_Args track)" "''firewall_policy'' \<in> set (Update_Args track)"
  "''src_ip_ranges'' \<in> set (Update_Args track)" "''dest_ip_ranges'' \<in> set (Update_Args track)"
  "''layer4_configs'' \<in> set (Update_Args track)" "''direction'' \<in> set (Update_Args track)"
  "''enable_logging'' \<in> set (Update_Args track)" "''disabled'' \<in> set (Update_Args track)"
  "''target_resources'' \<in> set (Update_Args track)"
  "''target_service_accounts'' \<in> set (Update_Args track)"
  "''description'' \<in> set (Update_Args track)" "''new_priority'' \<in> set (Update_Args track)"
  "''organization'' \<in> set (Update_Args track)"
  by (simp_all add: Update_Args_def)

lemma registered_on_ALPHA:
  "''src_fqdns'' \<in> set (Update_Args ALPHA)" "''dest_fqdns'' \<in> set (Update_Args ALPHA)"
  "''security_profile_group'' \<in> set (Update_Args ALPHA)"
  by (simp_all add: Update_Args_def)

lemma registered_on_ALPHA_BETA:
  assumes "track \<in> set [ALPHA, BETA]"
  shows "''src_threat_intelligence'' \<in> set (Update_Args track)"
    "''dest_threat_intelligence'' \<in> set (Update_Args track)"
    "''src_region_codes'' \<in> set (Update_Args track)"
    "''dest_region_codes'' \<in> set (Update_Args track)"
  using assms by (simp_all add: Update_Args_def)

lemma read_alpha_parsed:
  assumes "helpers_succeed h"
  shows "returns (read_alpha h track (parsed (Update_Args track) given))"
proof (cases "track = ALPHA")
  case True
  have b: "\<And>spg org fp. returns (BuildSecurityProfileGroupUrl h spg org fp)"
    using assms by (simp add: helpers_succeed_def)
  show ?thesis
    unfolding True read_alpha_def
    by (intro returns_intros returns_parsed registered_on_ALPHA registered_on_every_track b)
next
  case False
  then show ?thesis by (simp add: read_alpha_def returns_def)
qed

lemma read_alpha_beta_parsed:
  "returns (read_alpha_beta track (parsed (Update_Args track) given))"
proof (cases "track \<in> set [ALPHA, BETA]")
  case True
  show ?thesis
    unfolding read_alpha_beta_def
    by (intro returns_intros returns_parsed registered_on_ALPHA_BETA[OF True])
next
  case False
  then show ?thesis by (simp add: read_alpha_beta_def returns_def)
qed

lemma Update_Run_parsed:
  assumes "helpers_succeed h"
  shows "returns (Update_Run h track (parsed (Update_Args track) given))"
proof -
  have h: "\<And>args. returns (ResolveAsResource_Name h args)"
    "\<And>v. returns (ConvertPriorityToInt h v)"
    "\<And>v. returns (ParseLayer4Configs h v)"
    "\<And>fp org. returns (GetFirewallPolicyId h fp org)"
    using assms by (simp_all add: helpers_succeed_def)
  show ?thesis
    unfolding Update_Run_def read_flags_def read_direction_def
    by (intro returns_intros returns_parsed registered_on_every_track h
          read_alpha_parsed[OF assms] read_alpha_beta_parsed)
qed

lemma gated_keyword:
  assumes "opt \<notin> set (Update_Args track)" "request_keyword opt = Some k"
  shows "track \<noteq> ALPHA"
    and "k \<in> set [''securityProfileGroup'', ''srcFqdns'', ''destFqdns'', ''srcRegionCodes'',
                   ''destRegionCodes'', ''srcThreatIntelligences'', ''destThreatIntelligences'']"
    and "track = BETA \<Longrightarrow> k \<in> set [''securityProfileGroup'', ''srcFqdns'', ''destFqdns'']"
  using assms
  by (auto simp: request_keyword_def Update_Args_def split: if_splits)

lemma unsupported_keyword_absent:
  assumes "Update_Run h track args = Inr c" "opt \<notin> set (Update_Args track)"
    and "request_keyword opt = Some k"
  shows "k \<notin> set (request_keywords c)"
proof -
  from assms(1) obtain ref_name prio l traffic_direct act descr where
    r: "update_firewall_policy_rule c
          = build_rule track l act (build_matcher track l) traffic_direct descr"
    by (rule Update_Run_Inr)
  note g = gated_keyword[OF assms(2,3)]
  have s: "securityProfileGroup (update_firewall_policy_rule c) = None"
    using g(1) by (simp add: r build_rule_def)
  have m: "match (update_firewall_policy_rule c) = build_matcher track l"
    by (simp add: r build_rule_def)
  show ?thesis
  proof (cases "build_matcher track l")
    case None
    then have "match (update_firewall_policy_rule c) = None" by (simp add: m)
    then show ?thesis using g(2) by (auto simp: request_keywords_def s)
  next
    case (Some matcher)
    then have mm: "match (update_firewall_policy_rule c) = Some matcher" by (simp add: m)
    show ?thesis
    proof (cases track)
      case GA
      then have "matcher_fields matcher = [''srcIpRanges'', ''destIpRanges'', ''layer4Configs'']"
        using build_matcher_fields[OF Some] by simp
      then show ?thesis using g(2) by (auto simp: request_keywords_def s mm)
    next
      case BETA
      then have "matcher_fields matcher =
                   [''srcIpRanges'', ''destIpRanges'', ''layer4Configs'', ''srcRegionCodes'',
                    ''destRegionCodes'', ''srcThreatIntelligences'', ''destThreatIntelligences'']"
        using build_matcher_fields[OF Some] by simp
      then show ?thesis using g(3)[OF BETA] by (auto simp: request_keywords_def s mm)
    next
      case ALPHA
      then show ?thesis using g(1) by simp
    qed
  qed
qed

lemma options_gateway_api:
  "option_attr (CreateClusterOptions gd args a c r u i x d m) ''gateway_api''
     = gd ''gateway_api''"
  by code_simp

lemma options_enable_gke_oidc:
  "option_attr (CreateClusterOptions gd args a c r u i x d m) ''enable_gke_oidc''
     = getattr_default args ''enable_gke_oidc'' VNone"
  by code_simp

lemma parsed_not_registered:
  assumes "flag \<notin> set dests"
  shows "attrs (parsed dests given) flag = None"
  using assms by (simp add: parsed_def)

text \<open>
  C4. A release channel supports the options its parser registers. For the firewall
  command and a flag \<open>opt\<close> that its track does not register: a command line that gives
  \<open>opt\<close> is refused with UnsupportedOptionError before \<open>Run\<close> is reached, the error
  naming \<open>opt\<close> when the other flags are registered; a command line of registered
  flags, which leaves \<open>opt\<close> unset, is accepted, and \<open>Run\<close> raises
  nothing on it as long as its helpers raise nothing; and whatever the namespace, the
  keyword that \<open>opt\<close> is sent as is not among the keywords of the request. For the
  cluster command and a flag that the channel's parser does not register: a command line
  that gives it is refused alike, and on an accepted command line the ways the builder
  reads a flag (\<open>get_default\<close>, \<open>getattr\<close> with a default, the \<open>hasattr\<close> guard)
  yield the flag's default, \<open>None\<close> without one; so the \<open>gateway_api\<close> and
  \<open>enable_gke_oidc\<close> keywords of the options are \<open>None\<close> on a channel without these
  flags.
\<close>

theorem unsupported_option_refused_or_absent:
  assumes "opt \<notin> set (Update_Args track)" and "flag \<notin> set dests"
  shows "(opt \<in> set (map fst given) \<longrightarrow>
            (\<exists>dest. dest \<in> set (map fst given) \<and> dest \<notin> set (Update_Args track)
                  \<and> Update_command h track given = Inl (UnsupportedOptionError dest))
            \<and> (set (map fst given) \<subseteq> insert opt (set (Update_Args track)) \<longrightarrow>
                 Update_command h track given = Inl (UnsupportedOptionError opt)))
       \<and> (set (map fst given) \<subseteq> set (Update_Args track) \<and> helpers_succeed h \<longrightarrow>
            Update_command h track given = Update_Run h track (parsed (Update_Args track) given)
            \<and> returns (Update_command h track given))
       \<and> (\<forall>c k. Update_Run h track args = Inr c \<and> request_keyword opt = Some k \<longrightarrow>
                  k \<notin> set (request_keywords c))
       \<and> (flag \<in> set (map fst cgiven) \<longrightarrow>
            (\<exists>dest. dest \<in> set (map fst cgiven) \<and> dest \<notin> set dests
                  \<and> parse_args dests cgiven = Inl (UnsupportedOptionError dest)))
       \<and> (parse_args dests cgiven = Inr cargs \<longrightarrow>
            flag \<notin> set (map fst cgiven)
            \<and> AttrValue cargs flag base_flag_defaults = DefaultAttribute flag base_flag_defaults
            \<and> getattr_default cargs flag VNone = VNone
            \<and> specified_or_None cargs flag = VNone
            \<and> (flag = ''gateway_api'' \<longrightarrow>
                 option_attr
                   (CreateClusterOptions (\<lambda>key. AttrValue cargs key base_flag_defaults) cargs
                      is_autopilot cloud_run_config enable_autorepair enable_autoupgrade
                      enable_ip_alias enable_cloud_run_alpha node_disk_size_gb metadata)
                   ''gateway_api'' = VNone)
            \<and> (flag = ''enable_gke_oidc'' \<longrightarrow>
                 option_attr
                   (CreateClusterOptions (\<lambda>key. AttrValue cargs key base_flag_defaults) cargs
                      is_autopilot cloud_run_config enable_autorepair enable_autoupgrade
                      enable_ip_alias enable_cloud_run_alpha node_disk_size_gb metadata)
                   ''enable_gke_oidc'' = VNone))"
proof -
  have 1: "\<exists>dest. dest \<in> set (map fst given) \<and> dest \<notin> set (Update_Args track)
             \<and> Update_command h track given = Inl (UnsupportedOptionError dest)"
    if "opt \<in> set (map fst given)"
    using parse_args_refused[OF that assms(1)] by (auto simp: Update_command_def bindE_simps)
  have only_opt: "Update_command h track given = Inl (UnsupportedOptionError opt)"
    if "opt \<in> set (map fst given)"
       "set (map fst given) \<subseteq> insert opt (set (Update_Args track))"
    using 1[OF that(1)] that(2) by auto
  have 2: "Update_command h track given = Update_Run h track (parsed (Update_Args track) given)
           \<and> returns (Update_command h track given)"
    if "set (map fst given) \<subseteq> set (Update_Args track)" "helpers_succeed h"
    using Update_Run_parsed[OF that(2), of track given]
    by (simp add: Update_command_def parse_args_registered[OF that(1)] bindE_simps)
  have 3: "k \<notin> set (request_keywords c)"
    if "Update_Run h track args = Inr c" "request_keyword opt = Some k" for c k
    using that(1) assms(1) that(2) by (rule unsupported_keyword_absent)
  have 4: "\<exists>dest. dest \<in> set (map fst cgiven) \<and> dest \<notin> set dests
             \<and> parse_args dests cgiven = Inl (UnsupportedOptionError dest)"
    if "flag \<in> set (map fst cgiven)"
    using that assms(2) by (rule parse_args_refused)
  have 5: "flag \<notin> set (map fst cgiven)
           \<and> AttrValue cargs flag base_flag_defaults = DefaultAttribute flag base_flag_defaults
           \<and> getattr_default cargs flag VNone = VNone
           \<and> specified_or_None cargs flag = VNone
           \<and> (flag = ''gateway_api'' \<longrightarrow>
                option_attr
                  (CreateClusterOptions (\<lambda>key. AttrValue cargs key base_flag_defaults) cargs
                     is_autopilot cloud_run_config enable_autorepair enable_autoupgrade
                     enable_ip_alias enable_cloud_run_alpha node_disk_size_gb metadata)
                  ''gateway_api'' = VNone)
           \<and> (flag = ''enable_gke_oidc'' \<longrightarrow>
                option_attr
                  (CreateClusterOptions (\<lambda>key. AttrValue cargs key base_flag_defaults) cargs
                     is_autopilot cloud_run_config enable_autorepair enable_autoupgrade
                     enable_ip_alias enable_cloud_run_alpha node_disk_size_gb metadata)
                  ''enable_gke_oidc'' = VNone)"
    if p: "parse_args dests cgiven = Inr cargs"
  proof -
    have a: "attrs cargs flag = None"
      using parse_args_Inr(1)[OF p] parsed_not_registered[OF assms(2)] by simp
    have g: "flag \<notin> set (map fst cgiven)"
      using parse_args_Inr(2)[OF p] assms(2) by auto
    have v: "AttrValue cargs flag base_flag_defaults = DefaultAttribute flag base_flag_defaults"
      "getattr_default cargs flag VNone = VNone" "specified_or_None cargs flag = VNone"
      by (simp_all add: AttrValue_def getattr_default_def specified_or_None_def hasattr_def a)
    have gw: "option_attr
                (CreateClusterOptions (\<lambda>key. AttrValue cargs key base_flag_defaults) cargs
                   is_autopilot cloud_run_config enable_autorepair enable_autoupgrade
                   enable_ip_alias enable_cloud_run_alpha node_disk_size_gb metadata)
                ''gateway_api'' = VNone"
      if "flag = ''gateway_api''"
      using v(1) that
      by (simp add: options_gateway_api DefaultAttribute_def base_flag_defaults_def)
    have oidc: "option_attr
                  (CreateClusterOptions (\<lambda>key. AttrValue cargs key base_flag_defaults) cargs
                     is_autopilot cloud_run_config enable_autorepair enable_autoupgrade
                     enable_ip_alias enable_cloud_run_alpha node_disk_size_gb metadata)
                  ''enable_gke_oidc'' = VNone"
      if "flag = ''enable_gke_oidc''"
      using v(2) that by (simp add: options_enable_gke_oidc)
    from g v gw oidc show ?thesis by blast
  qed
  from 1 only_opt 2 3 4 5 show ?thesis by blast
qed

lemma example_update_parsed: "example_update track = parsed (Update_Args track) example_flags"
  by (simp add: example_update_def example_flags_def)

lemma sample_world_parsed: "namespace sample_world = parsed sample_dests sample_flags"
  by (simp add: sample_world_def sample_dests_def sample_flags_def)

theorem unsupported_option_refused_or_absent_witness:
  "''src_fqdns'' \<notin> set (Update_Args GA)
   \<and> ''gateway_api'' \<notin> set sample_dests
   \<and> ''enable_gke_oidc'' \<notin> set sample_dests
   \<and> ''src_fqdns'' \<in> set (map fst example_flags_with_fqdns)
   \<and> set (map fst example_flags_with_fqdns) \<subseteq> insert ''src_fqdns'' (set (Update_Args GA))
   \<and> Update_command obliging_fixture GA example_flags_with_fqdns
       = Inl (UnsupportedOptionError ''src_fqdns'')
   \<and> set (map fst example_flags) \<subseteq> set (Update_Args GA)
   \<and> helpers_succeed obliging_fixture
   \<and> Update_command obliging_fixture GA example_flags = Inr (example_call ga_matcher None)
   \<and> returns (Update_command obliging_fixture GA example_flags)
   \<and> request_keyword ''src_fqdns'' = Some ''srcFqdns''
   \<and> ''srcFqdns'' \<notin> set (request_keywords (example_call ga_matcher None))
   \<and> ''gateway_api'' \<in> set (map fst sample_flags_with_gateway)
   \<and> parse_args sample_dests sample_flags_with_gateway
       = Inl (UnsupportedOptionError ''gateway_api'')
   \<and> parse_args sample_dests sample_flags = Inr (namespace sample_world)
   \<and> ''gateway_api'' \<notin> set (map fst sample_flags)
   \<and> AttrValue (namespace sample_world) ''gateway_api'' base_flag_defaults = VNone
   \<and> option_attr sample_options ''gateway_api'' = VNone
   \<and> option_attr sample_options ''enable_gke_oidc'' = VNone"
proof -
  have o: "''src_fqdns'' \<notin> set (Update_Args GA)" by (simp add: Update_Args_def)
  have f: "''gateway_api'' \<notin> set sample_dests" by (simp add: sample_dests_def)
  have f2: "''enable_gke_oidc'' \<notin> set sample_dests" by (simp add: sample_dests_def)
  have g1: "''src_fqdns'' \<in> set (map fst example_flags_with_fqdns)"
    by (simp add: example_flags_with_fqdns_def)
  have s1: "set (map fst example_flags_with_fqdns) \<subseteq> insert ''src_fqdns'' (set (Update_Args GA))"
    by (simp add: example_flags_with_fqdns_def example_flags_def Update_Args_def)
  have g2: "set (map fst example_flags) \<subseteq> set (Update_Args GA)"
    by (simp add: example_flags_def Update_Args_def)
  have hs: "helpers_succeed obliging_fixture"
    by (simp add: helpers_succeed_def obliging_fixture_def firewall_fixture_def returns_def)
  have run: "Update_Run obliging_fixture GA (example_update GA)
               = Inr (example_call ga_matcher None)"
    by (simp add: eval_update obliging_fixture_def example_call_def ga_matcher_def)
  have k: "request_keyword ''src_fqdns'' = Some ''srcFqdns''"
    by (simp add: request_keyword_def)
  have g3: "''gateway_api'' \<in> set (map fst sample_flags_with_gateway)"
    by (simp add: sample_flags_with_gateway_def)
  have r3: "parse_args sample_dests sample_flags_with_gateway
              = Inl (UnsupportedOptionError ''gateway_api'')"
    by (simp add: parse_args_def sample_flags_with_gateway_def sample_flags_def
          sample_dests_def)
  have r4: "parse_args sample_dests sample_flags = Inr (namespace sample_world)"
    by (simp add: parse_args_def sample_flags_def sample_dests_def sample_world_def)
  note refused =
    unsupported_option_refused_or_absent
      [OF o f, where given = example_flags_with_fqdns and h = obliging_fixture
                 and cgiven = sample_flags_with_gateway]
  note accepted =
    unsupported_option_refused_or_absent
      [OF o f, where given = example_flags and h = obliging_fixture
                 and args = "example_update GA" and cgiven = sample_flags
                 and cargs = "namespace sample_world" and is_autopilot = False
                 and cloud_run_config = VNone and enable_autorepair = VNone
                 and enable_autoupgrade = VNone and enable_ip_alias = VNone
                 and enable_cloud_run_alpha = VNone and node_disk_size_gb = VNone
                 and metadata = "VDict []"]
  note oidc =
    unsupported_option_refused_or_absent
      [OF o f2, where cgiven = sample_flags
                  and cargs = "namespace sample_world" and is_autopilot = False
                  and cloud_run_config = VNone and enable_autorepair = VNone
                  and enable_autoupgrade = VNone and enable_ip_alias = VNone
                  and enable_cloud_run_alpha = VNone and node_disk_size_gb = VNone
                  and metadata = "VDict []"]
  have r1: "Update_command obliging_fixture GA example_flags_with_fqdns
              = Inl (UnsupportedOptionError ''src_fqdns'')"
    using refused g1 s1 by blast
  have a1: "Update_command obliging_fixture GA example_flags
              = Update_Run obliging_fixture GA (parsed (Update_Args GA) example_flags)"
    and a2: "returns (Update_command obliging_fixture GA example_flags)"
    using accepted g2 hs by blast+
  have a3: "''srcFqdns'' \<notin> set (request_keywords (example_call ga_matcher None))"
    using accepted run k by blast
  have a4: "''gateway_api'' \<notin> set (map fst sample_flags)"
    and a5: "AttrValue (namespace sample_world) ''gateway_api'' base_flag_defaults
              = DefaultAttribute ''gateway_api'' base_flag_defaults"
    and a6: "option_attr sample_options ''gateway_api'' = VNone"
    using accepted r4 unfolding sample_options_def by blast+
  have a7: "option_attr sample_options ''enable_gke_oidc'' = VNone"
    using oidc r4 unfolding sample_options_def by blast
  have d: "DefaultAttribute ''gateway_api'' base_flag_defaults = VNone"
    by (simp add: DefaultAttribute_def base_flag_defaults_def)
  from o f f2 g1 s1 r1 g2 hs a1 a2 a3 g3 r3 r4 a4 a5 a6 a7 k run d
  show ?thesis by (simp add: example_update_parsed)
qed

end
